theory Spec2Isabelle
  imports Complex_Main "HOL-Library.Word"
begin

section \<open>Invisible watermark engine of aigc\_watermark\<close>

text \<open>
  The engine is the class \<open>InvisibleWatermark\<close> of
  \<open>backend/app/services/invisible_watermark.py\<close>, the one the API imports. The file
  \<open>backend/invisible_watermark_fixed.py\<close> holds another variant of the class, which
  nothing imports; it is not modelled.

  Conventions of the embedding:
  \<^item> a two-dimensional numpy array is a list of rows; \<open>shape0\<close> and \<open>shape1\<close> are
    \<open>shape[0]\<close> and \<open>shape[1]\<close>, and \<open>rect\<close> says that every row has \<open>shape1\<close>
    entries, which every numpy array satisfies;
  \<^item> a \<open>uint8\<close> cell is an \<open>8 word\<close>, so that \<open>np.square\<close> wraps as numpy does;
  \<^item> a wavelet coefficient (numpy \<open>float32\<close>) and a confidence (a Python float) is
    a \<open>real\<close>: the arithmetic of the model is exact, rounding is not modelled;
  \<^item> a Python \<open>str\<close> is the list of its code points;
  \<^item> what OpenCV, PyWavelets, the file system, \<open>uuid\<close> and the clock give is an
    input of the model.
\<close>

subsection \<open>numpy arrays and for-loops\<close>

type_synonym 'a ndarray = "'a list list"

definition shape0 :: "'a ndarray \<Rightarrow> nat" where
  "shape0 m = length m"

definition shape1 :: "'a ndarray \<Rightarrow> nat" where
  "shape1 m = (case m of [] \<Rightarrow> 0 | r # _ \<Rightarrow> length r)"

definition rect :: "'a ndarray \<Rightarrow> bool" where
  "rect m = list_all (\<lambda>r. length r = shape1 m) m"

text \<open>\<open>np.zeros((h, w), dtype=np.uint8)\<close>\<close>

definition zeros :: "nat \<Rightarrow> nat \<Rightarrow> 8 word ndarray" where
  "zeros h w = replicate h (replicate w 0)"

text \<open>\<open>m[i, j] = v\<close>, for an index pair that is in range.\<close>

definition upd2 :: "'a ndarray \<Rightarrow> nat \<Rightarrow> nat \<Rightarrow> 'a \<Rightarrow> 'a ndarray" where
  "upd2 m i j v = m[i := (m ! i)[j := v]]"

text \<open>\<open>for i in range(n): s = body i s\<close>\<close>

definition for_range :: "nat \<Rightarrow> (nat \<Rightarrow> 's \<Rightarrow> 's) \<Rightarrow> 's \<Rightarrow> 's" where
  "for_range n body s = foldl (\<lambda>s i. body i s) s [0..<n]"

text \<open>Python's \<open>int(x)\<close> on a float: truncation towards zero.\<close>

definition py_int :: "real \<Rightarrow> int" where
  "py_int x = (if 0 \<le> x then \<lfloor>x\<rfloor> else \<lceil>x\<rceil>)"

subsection \<open>Engine constants (\<open>InvisibleWatermark.__init__\<close>)\<close>

text \<open>\<open>self.alpha = 100\<close>: the embedding strength.\<close>

definition alpha :: nat where
  "alpha = 100"

text \<open>\<open>self.level = 1\<close>: the decomposition level.\<close>

definition level :: nat where
  "level = 1"

subsection \<open>Blind signal extraction (\<open>extract_watermark\<close>, step 3)\<close>

text \<open>\<open>wm_size = min(32, ll_band.shape[0] // 2, ll_band.shape[1] // 2)\<close>\<close>

definition wm_size :: "real ndarray \<Rightarrow> nat" where
  "wm_size ll_band = min 32 (min (shape0 ll_band div 2) (shape1 ll_band div 2))"

text \<open>
  \<open>h_offset = (ll_band.shape[0] - wm_size) // 2\<close> and the same for the width. The
  subtraction never goes below zero, since \<open>wm_size\<close> is at most half of either
  dimension (lemma \<open>wm_size_le\<close>), so natural numbers model it.
\<close>

definition h_offset :: "real ndarray \<Rightarrow> nat" where
  "h_offset ll_band = (shape0 ll_band - wm_size ll_band) div 2"

definition w_offset :: "real ndarray \<Rightarrow> nat" where
  "w_offset ll_band = (shape1 ll_band - wm_size ll_band) div 2"

text \<open>\<open>byte_val = max(0, min(255, int(extracted_value / self.alpha)))\<close>, stored in a
  \<open>uint8\<close> cell.\<close>

definition byte_val :: "real \<Rightarrow> 8 word" where
  "byte_val extracted_value =
     word_of_int (max 0 (min 255 (py_int (extracted_value / real alpha))))"

text \<open>The body of the two nested loops over \<open>i\<close> and \<open>j\<close>.\<close>

definition extract_cell :: "real ndarray \<Rightarrow> nat \<Rightarrow> nat \<Rightarrow> 8 word ndarray \<Rightarrow> 8 word ndarray" where
  "extract_cell ll_band i j extracted_wm =
     (if h_offset ll_band + i < shape0 ll_band \<and> w_offset ll_band + j < shape1 ll_band then
        (let extracted_value = ll_band ! (h_offset ll_band + i) ! (w_offset ll_band + j) in
         if extracted_value > real alpha / 2
         then upd2 extracted_wm i j (byte_val extracted_value)
         else extracted_wm)
      else extracted_wm)"

definition extract_matrix :: "real ndarray \<Rightarrow> 8 word ndarray" where
  "extract_matrix ll_band =
     for_range (wm_size ll_band)
       (\<lambda>i. for_range (wm_size ll_band) (\<lambda>j. extract_cell ll_band i j))
       (zeros (wm_size ll_band) (wm_size ll_band))"

text \<open>\<open>np.count_nonzero(extracted_wm)\<close>\<close>

definition count_nonzero :: "8 word ndarray \<Rightarrow> nat" where
  "count_nonzero m = length (filter (\<lambda>x. x \<noteq> 0) (concat m))"

text \<open>
  \<open>np.sum(np.square(extracted_wm))\<close>: \<open>np.square\<close> keeps the \<open>uint8\<close> type of the
  array, so each square is taken modulo 256; \<open>np.sum\<close> then adds in a 64-bit integer,
  which a sum of at most 1024 bytes cannot overflow.
\<close>

definition signal_power :: "8 word ndarray \<Rightarrow> nat" where
  "signal_power m = sum_list (map (\<lambda>x. unat (x * x)) (concat m))"

text \<open>
  The detection decision. \<open>None\<close>: no detection (both \<open>else\<close> branches only log);
  \<open>Some c\<close>: a detection with confidence \<open>c\<close>.
\<close>

definition blind_confidence :: "real ndarray \<Rightarrow> real option" where
  "blind_confidence ll_band =
     (let extracted_wm = extract_matrix ll_band;
          n = wm_size ll_band;
          non_zero_pixels = count_nonzero extracted_wm
      in if real non_zero_pixels > real (n * n) * 0.25 then
           (let signal_power = signal_power extracted_wm;
                total_pixels = n * n;
                average_signal = (if total_pixels > 0
                                  then real signal_power / real total_pixels else 0)
            in if average_signal > 50
               then Some (min 0.8 (real non_zero_pixels / real (n * n)))
               else None)
         else None)"

subsection \<open>Python values: strings, bytes, JSON, paths\<close>

text \<open>A \<open>str\<close> is the list of its code points; \<open>py\<close> writes a literal.\<close>

type_synonym pystr = "nat list"

type_synonym path = pystr

definition py :: "string \<Rightarrow> pystr" where
  "py s = map of_char s"

text \<open>A byte string literal, \<open>b"..."\<close>.\<close>

definition pyb :: "string \<Rightarrow> 8 word list" where
  "pyb s = map of_char s"

datatype exn = AttributeError | OSError | ValueError | UnicodeEncodeError
  | LibraryError | IndexError | ZeroDivisionError

text \<open>What \<open>json.load\<close> and \<open>json.loads\<close> return; a \<open>dict\<close> is the list of its items.\<close>

datatype json = JNull | JBool bool | JNum real | JStr pystr | JArr "json list"
  | JObj "(pystr \<times> json) list"

text \<open>Truth value of a Python object in \<open>if x:\<close>.\<close>

fun truthy :: "json \<Rightarrow> bool" where
  "truthy JNull = False"
| "truthy (JBool v) = v"
| "truthy (JNum x) = (x \<noteq> 0)"
| "truthy (JStr s) = (s \<noteq> [])"
| "truthy (JArr xs) = (xs \<noteq> [])"
| "truthy (JObj kvs) = (kvs \<noteq> [])"

text \<open>\<open>d.get(k, default)\<close> on a \<open>dict\<close>.\<close>

definition dict_get :: "(pystr \<times> json) list \<Rightarrow> pystr \<Rightarrow> json \<Rightarrow> json" where
  "dict_get d k dflt = (case map_of d k of None \<Rightarrow> dflt | Some v \<Rightarrow> v)"

text \<open>\<open>k in d\<close>\<close>

definition dict_has :: "(pystr \<times> json) list \<Rightarrow> pystr \<Rightarrow> bool" where
  "dict_has d k = (map_of d k \<noteq> None)"

text \<open>
  \<open>s.replace(old, new)\<close>: the occurrences of \<open>old\<close> are replaced from the left and
  do not overlap; an empty \<open>old\<close> matches before every character and at the end.
\<close>

function str_replace :: "pystr \<Rightarrow> pystr \<Rightarrow> pystr \<Rightarrow> pystr" where
  "str_replace old new s =
     (if old = [] then new @ concat (map (\<lambda>c. c # new) s)
      else case s of
             [] \<Rightarrow> []
           | c # cs \<Rightarrow>
               if take (length old) s = old
               then new @ str_replace old new (drop (length old) s)
               else c # str_replace old new cs)"
  by pat_completeness auto
termination
  by (relation "measure (\<lambda>(old, new, s). length s)") auto

text \<open>
  \<open>x.replace("/static/", "")\<close> on a value read from the metadata: only a \<open>str\<close> has
  the method, anything else raises \<open>AttributeError\<close>.
\<close>

fun strip_static :: "json \<Rightarrow> exn + pystr" where
  "strip_static (JStr s) = Inr (str_replace (py ''/static/'') [] s)"
| "strip_static _ = Inl AttributeError"

text \<open>\<open>os.path.join(a, b)\<close> of \<open>posixpath\<close>.\<close>

definition path_join :: "path \<Rightarrow> path \<Rightarrow> path" where
  "path_join a p =
     (if take 1 p = py ''/'' then p
      else if a = [] \<or> drop (length a - 1) a = py ''/'' then a @ p
      else a @ py ''/'' @ p)"

text \<open>\<open>content.find(marker)\<close> on bytes: the lowest index of a match, or \<open>-1\<close>.\<close>

fun find_from :: "nat \<Rightarrow> 8 word list \<Rightarrow> 8 word list \<Rightarrow> int" where
  "find_from k marker [] = (if marker = [] then int k else - 1)"
| "find_from k marker (c # cs) =
     (if take (length marker) (c # cs) = marker then int k
      else find_from (Suc k) marker cs)"

definition bytes_find :: "8 word list \<Rightarrow> 8 word list \<Rightarrow> int" where
  "bytes_find content marker = find_from 0 marker content"

subsection \<open>The world the engine runs in\<close>

text \<open>
  An image as \<open>cv2.imread(path)\<close> returns it: rows of (blue, green, red) pixels. With
  the default flag OpenCV always returns three channels, so the branch that expands a
  single-channel image is never taken and is not modelled.
\<close>

type_synonym carrier = "(8 word \<times> 8 word \<times> 8 word) ndarray"

text \<open>A reference image as \<open>cv2.imread(path, cv2.IMREAD_UNCHANGED)\<close> returns it: one
  channel, or a list of three or four channel values per pixel.\<close>

datatype wm_image = Gray "8 word ndarray" | Colour "8 word list ndarray"

text \<open>The detail coefficients \<open>(cH, cV, cD)\<close> of a one-level decomposition.\<close>

type_synonym details = "real ndarray \<times> real ndarray \<times> real ndarray"

text \<open>
  The settings, the file system and the libraries. A field of type \<open>option\<close> or
  \<open>exn + _\<close> is an operation that can fail: \<open>None\<close> for \<open>imread\<close> is OpenCV's
  \<open>None\<close>, otherwise \<open>None\<close> and \<open>Inl\<close> are a raised exception; a field
  \<open>_ok\<close> says that a write does not raise.
\<close>

record world =
  STATIC_DIR :: path
  PROCESSED_DIR :: path
  file_exists :: "path \<Rightarrow> bool"
  load_json :: "path \<Rightarrow> exn + json"
  read_bytes :: "path \<Rightarrow> exn + 8 word list"
  loads :: "8 word list \<Rightarrow> exn + json"
  copy_ok :: "path \<Rightarrow> path \<Rightarrow> bool"
  imread :: "path \<Rightarrow> carrier option"
  imread_unchanged :: "path \<Rightarrow> wm_image option"
  wavedec2 :: "real ndarray \<Rightarrow> exn + real ndarray \<times> details"
  waverec2 :: "real ndarray \<times> details \<Rightarrow> exn + real ndarray"
  resize_linear :: "real ndarray \<Rightarrow> nat \<Rightarrow> nat \<Rightarrow> real ndarray"
  resize_nearest :: "8 word ndarray \<Rightarrow> nat \<Rightarrow> nat \<Rightarrow> 8 word ndarray"
  to_gray :: "wm_image \<Rightarrow> 8 word ndarray"
  normalize_minmax :: "8 word ndarray \<Rightarrow> 8 word ndarray"
  uuid4 :: "nat \<Rightarrow> pystr"
  now_isoformat :: pystr
  store_copies_ok :: bool
  imwrite :: "path \<Rightarrow> exn + bool"
  write_sidecar_ok :: bool
  write_trailer_ok :: bool
  save_view_ok :: bool

subsection \<open>The result of \<open>extract_watermark\<close>\<close>

text \<open>
  The messages of the result, in the order of the source: the empty string, "the
  original image watermark was extracted", "recovered from the backup image watermark",
  "an image watermark was extracted", "cannot read the image: path", "no valid
  invisible watermark detected", "extraction failed: exception".
\<close>

datatype message = NoMessage | OriginalImageRecovered | BackupImageRecovered
  | ImageRecovered | CannotReadImage path | NoWatermarkDetected | ExtractionFailed exn

record result =
  success :: bool
  detected :: bool
  watermark_text :: json
  watermark_type :: "pystr option"
  watermark_image_url :: json
  confidence :: real
  message :: message

definition initial_result :: result where
  "initial_result =
     \<lparr>success = False, detected = False, watermark_text = JStr [],
      watermark_type = None, watermark_image_url = JNull, confidence = 0,
      message = NoMessage\<rparr>"

text \<open>
  The state of one call: the result dictionary as it is so far, and the files the call
  has created. A block of the function ends in one of three ways: it returns the result,
  it falls through to the code after it, or it raises.
\<close>

type_synonym st = "result \<times> path list"

datatype flow = Return st | Fall st | Raise exn st

text \<open>\<open>try: block except Exception as e: logger.warning(...)\<close>\<close>

fun try_except_log :: "flow \<Rightarrow> flow" where
  "try_except_log (Raise e s) = Fall s"
| "try_except_log f = f"

text \<open>
  A state in which nothing has been found yet: the four fields that only a \<open>return\<close>
  sets still have their initial values.
\<close>

definition pending :: "st \<Rightarrow> bool" where
  "pending s = (\<not> success (fst s) \<and> \<not> detected (fst s) \<and> confidence (fst s) = 0
                \<and> message (fst s) = NoMessage)"

text \<open>The code after a block runs when the block falls through.\<close>

fun then_flow :: "flow \<Rightarrow> (st \<Rightarrow> flow) \<Rightarrow> flow" where
  "then_flow (Fall s) k = k s"
| "then_flow f k = f"

subsection \<open>Recovery from metadata (\<open>extract_watermark\<close>, steps 1 and 2)\<close>

text \<open>
  The branch for metadata of type image. The source has it twice, for the sidecar file
  and for the trailer, the same but for the two confidence values, which are parameters
  here. \<open>load_json\<close> is \<open>open\<close> followed by \<open>json.load\<close>, \<open>copy_ok\<close> is
  \<open>os.makedirs\<close> followed by \<open>shutil.copy2\<close>; after a copy that did not raise, the
  second \<open>os.path.exists(backup_static_path)\<close> holds.
\<close>

definition image_branch ::
  "world \<Rightarrow> (pystr \<times> json) list \<Rightarrow> real \<Rightarrow> real \<Rightarrow> st \<Rightarrow> flow" where
  "image_branch w metadata conf_original conf_backup s =
     (let res = (fst s)\<lparr>watermark_type := Some (py ''image'')\<rparr>;
          created = snd s;
          original_url = dict_get metadata (py ''watermark_image_url'') (JStr []);
          backup_url = dict_get metadata (py ''backup_image_url'') (JStr [])
      in if truthy original_url then
           (case strip_static original_url of
              Inl e \<Rightarrow> Raise e (res, created)
            | Inr image_filename \<Rightarrow>
                if file_exists w (path_join (STATIC_DIR w) image_filename) then
                  Return (res\<lparr>watermark_image_url := original_url, detected := True,
                              success := True, confidence := conf_original,
                              message := OriginalImageRecovered\<rparr>, created)
                else if truthy backup_url then
                  (case strip_static backup_url of
                     Inl e \<Rightarrow> Raise e (res, created)
                   | Inr backup_filename \<Rightarrow>
                       (let backup_static_path = path_join (STATIC_DIR w) backup_filename;
                            backup_processed_path = path_join (PROCESSED_DIR w) backup_filename;
                            found = res\<lparr>watermark_image_url := backup_url, detected := True,
                                        success := True, confidence := conf_backup,
                                        message := BackupImageRecovered\<rparr>
                        in if file_exists w backup_static_path then Return (found, created)
                           else if file_exists w backup_processed_path then
                             (if copy_ok w backup_processed_path backup_static_path
                              then Return (found, created @ [backup_static_path])
                              else Raise OSError (res, created))
                           else Fall (res, created)))
                else Fall (res, created))
         else Fall (res, created))"

text \<open>The branch for metadata of type text, with the confidence as a parameter.\<close>

definition text_branch :: "(pystr \<times> json) list \<Rightarrow> real \<Rightarrow> st \<Rightarrow> flow" where
  "text_branch metadata conf s =
     Return ((fst s)\<lparr>watermark_text := dict_get metadata (py ''watermark_text'') (JStr []),
                     watermark_type := Some (py ''text''), detected := True,
                     success := True, confidence := conf\<rparr>, snd s)"

text \<open>Step 1: the sidecar file \<open>image_path + ".metadata"\<close>. \<open>metadata.get\<close> raises
  \<open>AttributeError\<close> when the file holds JSON that is not an object.\<close>

definition sidecar_stage :: "world \<Rightarrow> path \<Rightarrow> st \<Rightarrow> flow" where
  "sidecar_stage w image_path s =
     (let metadata_path = image_path @ py ''.metadata'' in
      if file_exists w metadata_path then
        try_except_log
          (case load_json w metadata_path of
             Inl e \<Rightarrow> Raise e s
           | Inr (JObj metadata) \<Rightarrow>
               if dict_get metadata (py ''watermark_type'') JNull = JStr (py ''image'')
               then image_branch w metadata 0.99 0.95 s
               else if dict_get metadata (py ''watermark_type'') JNull = JStr (py ''text'')
               then text_branch metadata 0.99 s
               else Fall s
           | Inr _ \<Rightarrow> Raise AttributeError s)
      else Fall s)"

text \<open>
  The last branch of step 2, for trailer metadata whose type is neither image nor text.
\<close>

definition untyped_branch :: "world \<Rightarrow> (pystr \<times> json) list \<Rightarrow> st \<Rightarrow> flow" where
  "untyped_branch w embedded_metadata s =
     (if dict_has embedded_metadata (py ''watermark_image_url'') then
        (let url = dict_get embedded_metadata (py ''watermark_image_url'') JNull;
             res = (fst s)\<lparr>watermark_type := Some (py ''image''), watermark_image_url := url\<rparr>
         in case strip_static url of
              Inl e \<Rightarrow> Raise e (res, snd s)
            | Inr image_filename \<Rightarrow>
                if file_exists w (path_join (STATIC_DIR w) image_filename)
                then Return (res\<lparr>detected := True, success := True, confidence := 0.9,
                                 message := ImageRecovered\<rparr>, snd s)
                else Fall (res, snd s))
      else if dict_has embedded_metadata (py ''watermark_text'')
              \<and> truthy (dict_get embedded_metadata (py ''watermark_text'') JNull) then
        Return ((fst s)\<lparr>watermark_text := dict_get embedded_metadata (py ''watermark_text'') JNull,
                        watermark_type := Some (py ''text''), detected := True,
                        success := True, confidence := 0.9\<rparr>, snd s)
      else Fall s)"

text \<open>
  Step 2: the trailer of the image file. \<open>loads\<close> is \<open>bytes.decode('utf-8')\<close>
  followed by \<open>json.loads\<close>. The test is \<open>pos > 0\<close>: a marker at index 0 is not
  looked at.
\<close>

definition marker :: "8 word list" where
  "marker = pyb ''WATERMARK_METADATA:''"

definition trailer_stage :: "world \<Rightarrow> path \<Rightarrow> st \<Rightarrow> flow" where
  "trailer_stage w image_path s =
     try_except_log
       (case read_bytes w image_path of
          Inl e \<Rightarrow> Raise e s
        | Inr content \<Rightarrow>
            (let pos = bytes_find content marker in
             if pos > 0 then
               (case loads w (drop (nat pos + length marker) content) of
                  Inl e \<Rightarrow> Raise e s
                | Inr (JObj embedded_metadata) \<Rightarrow>
                    if dict_get embedded_metadata (py ''watermark_type'') JNull = JStr (py ''image'')
                    then image_branch w embedded_metadata 0.95 0.90 s
                    else if dict_get embedded_metadata (py ''watermark_type'') JNull = JStr (py ''text'')
                    then text_branch embedded_metadata 0.95 s
                    else untyped_branch w embedded_metadata s
                | Inr _ \<Rightarrow> Raise AttributeError s)
             else Fall s))"

text \<open>
  When a display copy named by the metadata resolves: the file of the original locator
  is in the static directory; the file of the backup locator is in the static or in the
  processed directory.
\<close>

definition original_resolves :: "world \<Rightarrow> (pystr \<times> json) list \<Rightarrow> bool" where
  "original_resolves w metadata =
     (case strip_static (dict_get metadata (py ''watermark_image_url'') (JStr [])) of
        Inr image_filename \<Rightarrow> file_exists w (path_join (STATIC_DIR w) image_filename)
      | Inl e \<Rightarrow> False)"

definition backup_resolves :: "world \<Rightarrow> (pystr \<times> json) list \<Rightarrow> bool" where
  "backup_resolves w metadata =
     (case strip_static (dict_get metadata (py ''backup_image_url'') (JStr [])) of
        Inr backup_filename \<Rightarrow>
          file_exists w (path_join (STATIC_DIR w) backup_filename)
          \<or> file_exists w (path_join (PROCESSED_DIR w) backup_filename)
      | Inl e \<Rightarrow> False)"

text \<open>\<open>metadata.get("watermark_type")\<close>\<close>

definition type_of :: "(pystr \<times> json) list \<Rightarrow> json" where
  "type_of metadata = dict_get metadata (py ''watermark_type'') JNull"

subsection \<open>\<open>extract_watermark\<close>\<close>

text \<open>\<open>img[:, :, 0].astype(np.float32)\<close>\<close>

definition blue_channel :: "carrier \<Rightarrow> real ndarray" where
  "blue_channel img = map (map (\<lambda>(blue, green, red). real (unat blue))) img"

text \<open>
  Step 3. On a detection the viewable result is rendered and written twice
  (\<open>cv2.imwrite\<close>, \<open>os.makedirs\<close>, \<open>shutil.copy2\<close>) before the result is filled in;
  \<open>save_view_ok\<close> says that none of this raises.
\<close>

definition signal_stage :: "world \<Rightarrow> path \<Rightarrow> st \<Rightarrow> flow" where
  "signal_stage w image_path s =
     (case imread w image_path of
        None \<Rightarrow> Return ((fst s)\<lparr>message := CannotReadImage image_path\<rparr>, snd s)
      | Some img \<Rightarrow>
          (case wavedec2 w (blue_channel img) of
             Inl e \<Rightarrow> Raise e s
           | Inr (ll_band, _) \<Rightarrow>
               (case blind_confidence ll_band of
                  Some c \<Rightarrow>
                    (let extracted_wm_filename =
                           py ''extracted_watermark_'' @ uuid4 w 0 @ py ''.png''
                     in if save_view_ok w then
                          Return ((fst s)\<lparr>watermark_image_url :=
                                            JStr (py ''/static/'' @ extracted_wm_filename),
                                          watermark_type := Some (py ''image''),
                                          detected := True, success := True,
                                          confidence := c\<rparr>,
                                  snd s @ [path_join (PROCESSED_DIR w) extracted_wm_filename,
                                           path_join (STATIC_DIR w) extracted_wm_filename])
                        else Raise OSError s)
                | None \<Rightarrow>
                    Return ((fst s)\<lparr>detected := False, success := True,
                                    message := NoWatermarkDetected\<rparr>, snd s))))"

text \<open>The body of the outer \<open>try\<close>.\<close>

definition extract_body :: "world \<Rightarrow> path \<Rightarrow> flow" where
  "extract_body w image_path =
     then_flow
       (then_flow (sidecar_stage w image_path (initial_result, []))
                  (trailer_stage w image_path))
       (signal_stage w image_path)"

text \<open>
  The whole function: the result dictionary and the files created, or \<open>None\<close> when no
  dictionary comes back (the body would end without a \<open>return\<close>). The outer handler
  turns every exception of the body into a result.
\<close>

definition extract_watermark :: "world \<Rightarrow> path \<Rightarrow> st option" where
  "extract_watermark w image_path =
     (case extract_body w image_path of
        Return s \<Rightarrow> Some s
      | Raise e s \<Rightarrow> Some ((fst s)\<lparr>success := False, message := ExtractionFailed e\<rparr>, snd s)
      | Fall s \<Rightarrow> None)"

subsection \<open>Payload encoder (\<open>_prepare_watermark_data\<close>)\<close>

text \<open>
  \<open>text.encode('utf-8')\<close>. A \<open>str\<close> holds code points below \<open>0x110000\<close>; a
  surrogate (\<open>0xD800\<close> to \<open>0xDFFF\<close>) has no UTF-8 form and raises
  \<open>UnicodeEncodeError\<close>.
\<close>

definition utf8_char :: "nat \<Rightarrow> exn + 8 word list" where
  "utf8_char c =
     (if c < 0x80 then Inr [of_nat c]
      else if c < 0x800 then Inr [of_nat (0xC0 + c div 64), of_nat (0x80 + c mod 64)]
      else if 0xD800 \<le> c \<and> c < 0xE000 then Inl UnicodeEncodeError
      else if c < 0x10000 then
        Inr [of_nat (0xE0 + c div 4096), of_nat (0x80 + c div 64 mod 64),
             of_nat (0x80 + c mod 64)]
      else
        Inr [of_nat (0xF0 + c div 262144), of_nat (0x80 + c div 4096 mod 64),
             of_nat (0x80 + c div 64 mod 64), of_nat (0x80 + c mod 64)])"

fun encode_utf8 :: "pystr \<Rightarrow> exn + 8 word list" where
  "encode_utf8 [] = Inr []"
| "encode_utf8 (c # cs) =
     (case utf8_char c of
        Inl e \<Rightarrow> Inl e
      | Inr bs \<Rightarrow> (case encode_utf8 cs of Inl e \<Rightarrow> Inl e | Inr rest \<Rightarrow> Inr (bs @ rest)))"

text \<open>The metadata dictionary: \<open>metadata[k] = v\<close> and \<open>metadata.update\<close>.\<close>

type_synonym metadata = "(pystr \<times> json) list"

definition dict_set :: "metadata \<Rightarrow> pystr \<Rightarrow> json \<Rightarrow> metadata" where
  "dict_set d k v =
     (if dict_has d k then map (\<lambda>(k', v'). if k' = k then (k', v) else (k', v')) d
      else d @ [(k, v)])"

definition dict_update :: "metadata \<Rightarrow> metadata \<Rightarrow> metadata" where
  "dict_update d new = foldl (\<lambda>d (k, v). dict_set d k v) d new"

text \<open>
  The text path: \<open>center_start = (size - text_len) // 2 if text_len < size else 0\<close>,
  the zero matrix, then the loop that puts byte \<open>i\<close> on the diagonal at
  \<open>center_start + i\<close>.
\<close>

definition center_start :: "nat \<Rightarrow> nat \<Rightarrow> nat" where
  "center_start text_len msize = (if text_len < msize then (msize - text_len) div 2 else 0)"

definition text_matrix :: "8 word list \<Rightarrow> nat \<Rightarrow> 8 word ndarray" where
  "text_matrix text_bytes msize =
     (let text_len = length text_bytes
      in for_range (min text_len msize)
           (\<lambda>i watermark.
              let row = center_start text_len msize + i
              in if row < msize then upd2 watermark row row (text_bytes ! i) else watermark)
           (zeros msize msize))"

text \<open>What the encoder returns: the matrix and the metadata; and the files it wrote.\<close>

type_synonym prepared = "8 word ndarray \<times> metadata \<times> path list"

text \<open>
  The \<open>elif\<close> and \<open>else\<close> branches: text, or nothing. \<open>np.zeros\<close> raises
  \<open>ValueError\<close> for a negative size.
\<close>

definition prepare_text_or_none :: "pystr option \<Rightarrow> int \<Rightarrow> exn + prepared" where
  "prepare_text_or_none wm_text max_size =
     (case wm_text of
        Some text \<Rightarrow>
          (case encode_utf8 text of
             Inl e \<Rightarrow> Inl e
           | Inr text_bytes \<Rightarrow>
               (let msize = min max_size 32 in
                if msize < 0 then Inl ValueError
                else Inr (text_matrix text_bytes (nat msize),
                          [(py ''watermark_type'', JStr (py ''text'')),
                           (py ''watermark_text'', JStr text),
                           (py ''text_length'', JNum (real (length text_bytes))),
                           (py ''matrix_size'', JNum (real_of_int msize))],
                          [])))
      | None \<Rightarrow> Inr (zeros 1 1, [(py ''watermark_type'', JStr (py ''none''))], []))"

text \<open>\<open>cv2.threshold(wm_img, 127, 255, cv2.THRESH_BINARY)\<close>\<close>

definition threshold_binary :: "8 word ndarray \<Rightarrow> 8 word ndarray" where
  "threshold_binary img = map (map (\<lambda>x. if x > 127 then 255 else 0)) img"

text \<open>
  The image path. \<open>store_copies_ok\<close>: \<open>os.makedirs\<close>, \<open>cv2.imwrite\<close> of the
  display copy and \<open>shutil.copy2\<close> of its backup do not raise. \<open>cv2.resize\<close> raises
  for a size that is not positive.
\<close>

definition prepare_image :: "world \<Rightarrow> wm_image \<Rightarrow> int \<Rightarrow> exn + prepared" where
  "prepare_image w wm_img max_size =
     (let original_wm_filename = py ''original_watermark_'' @ uuid4 w 0 @ py ''.png'';
          original_wm_path = path_join (STATIC_DIR w) original_wm_filename;
          backup_wm_filename = py ''backup_watermark_'' @ uuid4 w 0 @ py ''.png'';
          backup_wm_path = path_join (PROCESSED_DIR w) backup_wm_filename
      in if \<not> store_copies_ok w then Inl OSError
         else
           (let binary_wm = threshold_binary (normalize_minmax w (to_gray w wm_img));
                msize = min max_size 32
            in if msize \<le> 0 then Inl LibraryError
               else
                 (let watermark =
                        (if shape0 binary_wm \<noteq> nat msize \<or> shape1 binary_wm \<noteq> nat msize
                         then resize_nearest w binary_wm (nat msize) (nat msize)
                         else binary_wm)
                  in Inr (watermark,
                          [(py ''watermark_type'', JStr (py ''image'')),
                           (py ''watermark_image_url'', JStr (py ''/static/'' @ original_wm_filename)),
                           (py ''backup_image_url'', JStr (py ''/static/'' @ backup_wm_filename)),
                           (py ''matrix_size'', JNum (real_of_int msize))],
                          [original_wm_path, backup_wm_path]))))"

text \<open>
  The encoder. When the reference image exists and cannot be decoded, the function
  calls itself without the image path and so reaches the text branch.
\<close>

fun prepare_watermark_data ::
  "world \<Rightarrow> pystr option \<Rightarrow> path option \<Rightarrow> int \<Rightarrow> exn + prepared" where
  "prepare_watermark_data w wm_text (Some watermark_image_path) max_size =
     (if watermark_image_path \<noteq> [] \<and> file_exists w watermark_image_path then
        (case imread_unchanged w watermark_image_path of
           None \<Rightarrow> prepare_watermark_data w wm_text None max_size
         | Some wm_img \<Rightarrow> prepare_image w wm_img max_size)
      else prepare_text_or_none wm_text max_size)"
| "prepare_watermark_data w wm_text None max_size =
     prepare_text_or_none wm_text max_size"

subsection \<open>Coefficient embedder (\<open>embed_watermark\<close>)\<close>

text \<open>An index into a numpy axis of length \<open>n\<close>: a negative one counts from the end,
  one out of range raises \<open>IndexError\<close> (\<open>None\<close>).\<close>

definition np_index :: "nat \<Rightarrow> int \<Rightarrow> nat option" where
  "np_index n k =
     (if 0 \<le> k \<and> k < int n then Some (nat k)
      else if - int n \<le> k \<and> k < 0 then Some (nat (int n + k))
      else None)"

text \<open>A \<open>for\<close> loop whose body can raise.\<close>

definition for_range_e :: "nat \<Rightarrow> (nat \<Rightarrow> 's \<Rightarrow> exn + 's) \<Rightarrow> 's \<Rightarrow> exn + 's" where
  "for_range_e n body s =
     foldl (\<lambda>r i. case r of Inl e \<Rightarrow> Inl e | Inr s' \<Rightarrow> body i s') (Inr s) [0..<n]"

text \<open>\<open>effective_alpha = self.alpha * 0.5\<close>\<close>

definition effective_alpha :: real where
  "effective_alpha = real alpha * 0.5"

text \<open>
  The body of the two nested loops:
  \<open>add_value = min(effective_alpha * watermark_resized[i, j], original_value * 0.2)\<close>,
  \<open>ll_band[h_offset + i, w_offset + j] += add_value\<close>.
\<close>

definition embed_cell ::
  "8 word ndarray \<Rightarrow> int \<Rightarrow> int \<Rightarrow> int \<Rightarrow> int \<Rightarrow> nat \<Rightarrow> nat \<Rightarrow> real ndarray
   \<Rightarrow> exn + real ndarray" where
  "embed_cell watermark_resized h_off w_off h_end w_end i j ll_band =
     (if h_off + int i < h_end \<and> w_off + int j < w_end then
        if watermark_resized ! i ! j > 0 then
          (case (np_index (shape0 ll_band) (h_off + int i),
                 np_index (shape1 ll_band) (w_off + int j)) of
             (Some r, Some c) \<Rightarrow>
               (let original_value = ll_band ! r ! c;
                    add_value = min (effective_alpha * real (unat (watermark_resized ! i ! j)))
                                    (original_value * 0.2)
                in Inr (upd2 ll_band r c (original_value + add_value)))
           | _ \<Rightarrow> Inl IndexError)
        else Inr ll_band
      else Inr ll_band)"

definition embed_loop :: "8 word ndarray \<Rightarrow> real ndarray \<Rightarrow> exn + real ndarray" where
  "embed_loop watermark_resized ll_band =
     (let ll_h = int (shape0 ll_band);
          ll_w = int (shape1 ll_band);
          h_off = (ll_h - int (shape0 watermark_resized)) div 2;
          w_off = (ll_w - int (shape1 watermark_resized)) div 2;
          h_end = min ll_h (h_off + int (shape0 watermark_resized));
          w_end = min ll_w (w_off + int (shape1 watermark_resized))
      in for_range_e (shape0 watermark_resized)
           (\<lambda>i. for_range_e (shape1 watermark_resized)
                  (\<lambda>j. embed_cell watermark_resized h_off w_off h_end w_end i j))
           ll_band)"

text \<open>
  \<open>scale = min(min(1.0, ll_h / wm_h), min(1.0, ll_w / wm_w))\<close>,
  \<open>new_h = max(1, int(wm_h * scale))\<close>, \<open>new_w = max(1, int(wm_w * scale))\<close>.
\<close>

definition fit_size :: "nat \<Rightarrow> nat \<Rightarrow> nat \<Rightarrow> nat \<Rightarrow> nat \<times> nat" where
  "fit_size wm_h wm_w ll_h ll_w =
     (let scale_h = min 1 (real ll_h / real wm_h);
          scale_w = min 1 (real ll_w / real wm_w);
          scale = min scale_h scale_w
      in (nat (max 1 (py_int (real wm_h * scale))), nat (max 1 (py_int (real wm_w * scale)))))"

text \<open>\<open>np.clip(reconstructed, 0, 255)\<close>\<close>

definition clip :: "real ndarray \<Rightarrow> real ndarray" where
  "clip a = map (map (\<lambda>x. min 255 (max 0 x))) a"

text \<open>
  \<open>(0.85 * reconstructed + (1 - 0.85) * img[:, :, 0]).astype(np.uint8)\<close>, written into
  channel 0 of the copy. \<open>cv2.resize\<close> has given \<open>reconstructed\<close> the shape of
  \<open>img\<close>, so the rows pair up.
\<close>

definition blend :: "real ndarray \<Rightarrow> carrier \<Rightarrow> carrier" where
  "blend reconstructed img =
     map (\<lambda>(rec_row, img_row).
            map (\<lambda>(x, (blue, green, red)).
                   (word_of_int (py_int (0.85 * x + (1 - 0.85) * real (unat blue))), green, red))
                (zip rec_row img_row))
         (zip reconstructed img)"

text \<open>
  The two \<open>if\<close>s after the encoder that set \<open>metadata["watermark_type"]\<close> again,
  from what the caller supplied (\<open>kind\<close>, the local \<open>watermark_type\<close>).
\<close>

definition confirm_type :: "pystr \<Rightarrow> metadata \<Rightarrow> metadata" where
  "confirm_type kind metadata =
     (if kind = py ''image''
         \<or> (metadata \<noteq> [] \<and> dict_get metadata (py ''watermark_type'') JNull = JStr (py ''image''))
      then dict_set metadata (py ''watermark_type'') (JStr (py ''image''))
      else if kind = py ''text''
         \<or> (metadata \<noteq> [] \<and> dict_get metadata (py ''watermark_type'') JNull = JStr (py ''text''))
      then dict_set metadata (py ''watermark_type'') (JStr (py ''text''))
      else metadata)"

text \<open>The state of \<open>embed_watermark\<close> once \<open>cv2.imwrite(output_path, ...)\<close> has
  returned.\<close>

record saved =
  s_output_path :: path
  s_image :: carrier
  s_imwrite :: bool
  s_metadata :: metadata
  s_watermark :: "8 word ndarray"
  s_files :: "path list"

text \<open>
  \<open>embed_watermark\<close> up to and including \<open>cv2.imwrite\<close>. The \<open>alpha\<close> argument of
  the function does not occur in its body; \<open>cv2.resize\<close> takes (width, height).
\<close>

definition embed_image ::
  "world \<Rightarrow> path \<Rightarrow> pystr option \<Rightarrow> path option \<Rightarrow> path option \<Rightarrow> exn + saved" where
  "embed_image w image_path wm_text watermark_image_path output_path =
     (let kind =
            (if (case watermark_image_path of
                   Some p \<Rightarrow> p \<noteq> [] \<and> file_exists w p | None \<Rightarrow> False)
             then py ''image''
             else if (case wm_text of Some t \<Rightarrow> t \<noteq> [] | None \<Rightarrow> False)
             then py ''text''
             else py ''unknown'')
      in case imread w image_path of
           None \<Rightarrow> Inl ValueError
         | Some img \<Rightarrow>
            (case prepare_watermark_data w wm_text watermark_image_path 32 of
               Inl e \<Rightarrow> Inl e
             | Inr (watermark, metadata0, files) \<Rightarrow>
                (case wavedec2 w (blue_channel img) of
                   Inl e \<Rightarrow> Inl e
                 | Inr (ll_band, detail) \<Rightarrow>
                    if shape0 watermark = 0 \<or> shape1 watermark = 0 then Inl ZeroDivisionError
                    else
                      (let (new_h, new_w) =
                             fit_size (shape0 watermark) (shape1 watermark)
                                      (shape0 ll_band) (shape1 ll_band);
                           watermark_resized =
                             (if new_h \<noteq> shape0 watermark \<or> new_w \<noteq> shape1 watermark
                              then resize_nearest w watermark new_w new_h
                              else watermark)
                       in case embed_loop watermark_resized ll_band of
                            Inl e \<Rightarrow> Inl e
                          | Inr ll_marked \<Rightarrow>
                             (case waverec2 w (ll_marked, detail) of
                                Inl e \<Rightarrow> Inl e
                              | Inr reconstructed \<Rightarrow>
                                 (let clipped =
                                        clip (resize_linear w reconstructed (shape1 img) (shape0 img));
                                      watermarked_img = blend clipped img;
                                      out = (case output_path of
                                               None \<Rightarrow> path_join (PROCESSED_DIR w)
                                                                  (uuid4 w 1 @ py ''.png'')
                                             | Some p \<Rightarrow> p)
                                  in case imwrite w out of
                                       Inl e \<Rightarrow> Inl e
                                     | Inr written \<Rightarrow>
                                         Inr \<lparr>s_output_path = out, s_image = watermarked_img,
                                              s_imwrite = written,
                                              s_metadata = confirm_type kind metadata0,
                                              s_watermark = watermark,
                                              s_files = files @ [out]\<rparr>))))))"

text \<open>What a call of \<open>embed_watermark\<close> that returns has done: the path it returns,
  the image and the metadata it wrote, whether the trailer was appended, and the files
  it created.\<close>

record embedded =
  returned_path :: path
  image :: carrier
  metadata_written :: metadata
  trailer_appended :: bool
  files_created :: "path list"

text \<open>
  The rest of \<open>embed_watermark\<close>: \<open>metadata.update\<close>, the sidecar file written with
  \<open>open\<close> and \<open>json.dump\<close> directly in the outer \<open>try\<close>, the trailer appended in a
  \<open>try\<close> of its own whose handler logs a warning, and \<open>return output_path\<close>.
\<close>

definition persist_metadata :: "world \<Rightarrow> saved \<Rightarrow> exn + embedded" where
  "persist_metadata w s =
     (let metadata =
            dict_update (s_metadata s)
              [(py ''algorithm'', JStr (py ''dwt'')),
               (py ''wavelet'', JStr (py ''haar'')),
               (py ''level'', JNum (real level)),
               (py ''alpha'', JNum (real alpha)),
               (py ''watermark_size'',
                  JArr [JNum (real (shape0 (s_watermark s))), JNum (real (shape1 (s_watermark s)))]),
               (py ''timestamp'', JStr (now_isoformat w))];
          metadata_path = s_output_path s @ py ''.metadata''
      in if \<not> write_sidecar_ok w then Inl OSError
         else Inr \<lparr>returned_path = s_output_path s, image = s_image s,
                   metadata_written = metadata,
                   trailer_appended = write_trailer_ok w,
                   files_created = s_files s @ [metadata_path]\<rparr>)"

text \<open>The whole function; the outer handler logs and raises again.\<close>

definition embed_watermark ::
  "world \<Rightarrow> path \<Rightarrow> pystr option \<Rightarrow> path option \<Rightarrow> real \<Rightarrow> path option \<Rightarrow> exn + embedded" where
  "embed_watermark w image_path wm_text watermark_image_path alpha_arg output_path =
     (case embed_image w image_path wm_text watermark_image_path output_path of
        Inl e \<Rightarrow> Inl e
      | Inr s \<Rightarrow> persist_metadata w s)"

subsection \<open>Concrete inputs\<close>

text \<open>A 4 by 4 sub-band whose central 2 by 2 window holds the coefficients
  800, 75, -300 and 260.\<close>

definition ll_example :: "real ndarray" where
  "ll_example = [[0, 0, 0, 0], [0, 800, 75, 0], [0, - 300, 260, 0], [0, 0, 0, 0]]"

text \<open>A 2 by 2 sub-band with the coefficient 800 everywhere.\<close>

definition ll_marked :: "real ndarray" where
  "ll_marked = [[800, 800], [800, 800]]"

text \<open>
  A stand-in for PyWavelets in the concrete worlds: the approximation band of the
  one-level Haar transform with symmetric padding, \<open>(a + b + c + d) / 2\<close> for every 2
  by 2 block, with all detail coefficients dropped, and its inverse on such input.
\<close>

fun pairs :: "real list \<Rightarrow> real list" where
  "pairs (x # y # xs) = (x + y) # pairs xs"
| "pairs [x] = [x + x]"
| "pairs [] = []"

fun haar_ll :: "real ndarray \<Rightarrow> real ndarray" where
  "haar_ll (r1 # r2 # rs) = map (\<lambda>v. v / 2) (pairs (map2 (+) r1 r2)) # haar_ll rs"
| "haar_ll [r] = [map (\<lambda>v. v / 2) (pairs (map2 (+) r r))]"
| "haar_ll [] = []"

definition haar_inverse :: "real ndarray \<Rightarrow> real ndarray" where
  "haar_inverse ll =
     concat (map (\<lambda>row. let r = concat (map (\<lambda>v. [v / 2, v / 2]) row) in [r, r]) ll)"

text \<open>A stand-in for \<open>cv2.resize\<close>: nearest-neighbour sampling.\<close>

definition nearest :: "'a ndarray \<Rightarrow> nat \<Rightarrow> nat \<Rightarrow> 'a ndarray" where
  "nearest a width height =
     map (\<lambda>i. map (\<lambda>j. a ! (i * shape0 a div height) ! (j * shape1 a div width)) [0..<width])
         [0..<height]"

text \<open>The image file the concrete calls are about, and a black 4 by 4 image.\<close>

definition suspect :: path where
  "suspect = py ''/srv/processed/out.png''"

definition black4 :: carrier where
  "black4 = replicate 4 (replicate 4 (0, 0, 0))"

text \<open>
  A world with empty directories: no file exists, every read fails, every write
  succeeds.
\<close>

definition world_empty :: world where
  "world_empty =
     \<lparr>STATIC_DIR = py ''/srv/static'', PROCESSED_DIR = py ''/srv/processed'',
      file_exists = (\<lambda>p. False),
      load_json = (\<lambda>p. Inl OSError),
      read_bytes = (\<lambda>p. Inl OSError),
      loads = (\<lambda>bs. Inl ValueError),
      copy_ok = (\<lambda>src dst. True),
      imread = (\<lambda>p. None),
      imread_unchanged = (\<lambda>p. None),
      wavedec2 = (\<lambda>a. Inr (haar_ll a, ([], [], []))),
      waverec2 = (\<lambda>(ll, d). Inr (haar_inverse ll)),
      resize_linear = nearest,
      resize_nearest = nearest,
      to_gray = (\<lambda>img. case img of Gray g \<Rightarrow> g | Colour c \<Rightarrow> map (map hd) c),
      normalize_minmax = (\<lambda>a. a),
      uuid4 = (\<lambda>k. if k = 0 then py ''0a0a'' else py ''1b1b''),
      now_isoformat = py ''2025-01-01T00:00:00'',
      store_copies_ok = True,
      imwrite = (\<lambda>p. Inr True),
      write_sidecar_ok = True,
      write_trailer_ok = True,
      save_view_ok = True\<rparr>"

text \<open>The image file exists and decodes to the black image; it has no sidecar file and
  no trailer.\<close>

definition world_plain :: world where
  "world_plain =
     world_empty\<lparr>file_exists := (\<lambda>p. p = suspect),
                 read_bytes := (\<lambda>p. if p = suspect then Inr (pyb ''PNG'') else Inl OSError),
                 imread := (\<lambda>p. if p = suspect then Some black4 else None)\<rparr>"

text \<open>The sidecar file of the image holds metadata of type text.\<close>

definition world_sidecar_text :: world where
  "world_sidecar_text =
     world_plain\<lparr>file_exists := (\<lambda>p. p = suspect \<or> p = suspect @ py ''.metadata''),
                 load_json := (\<lambda>p. if p = suspect @ py ''.metadata''
                                     then Inr (JObj [(py ''watermark_type'', JStr (py ''text'')),
                                                     (py ''watermark_text'', JStr (py ''hello''))])
                                     else Inl OSError)\<rparr>"

text \<open>
  No sidecar file; the trailer of the image holds metadata without a
  \<open>watermark_type\<close>, with a text and no image locator.
\<close>

definition trailer_json :: "8 word list" where
  \<open>trailer_json = pyb ''{"watermark_text": "hi"}''\<close>

definition untyped_metadata :: "(pystr \<times> json) list" where
  "untyped_metadata = [(py ''watermark_text'', JStr (py ''hi''))]"

definition world_trailer_untyped :: world where
  "world_trailer_untyped =
     world_plain\<lparr>read_bytes := (\<lambda>p. if p = suspect
                                      then Inr (pyb ''PNG'' @ marker @ trailer_json)
                                      else Inl OSError),
                 loads := (\<lambda>bs. if bs = trailer_json
                                 then Inr (JObj untyped_metadata)
                                 else Inl ValueError)\<rparr>"

text \<open>
  The sidecar file holds metadata of type image; the display copy it names is gone from
  the static directory, its backup is in the processed directory.
\<close>

definition image_metadata :: "(pystr \<times> json) list" where
  "image_metadata =
     [(py ''watermark_type'', JStr (py ''image'')),
      (py ''watermark_image_url'', JStr (py ''/static/original_watermark_0a0a.png'')),
      (py ''backup_image_url'', JStr (py ''/static/backup_watermark_0a0a.png''))]"

definition world_sidecar_backup :: world where
  "world_sidecar_backup =
     world_plain\<lparr>file_exists := (\<lambda>p. p = suspect \<or> p = suspect @ py ''.metadata''
                                        \<or> p = py ''/srv/processed/backup_watermark_0a0a.png''),
                 load_json := (\<lambda>p. if p = suspect @ py ''.metadata''
                                     then Inr (JObj image_metadata) else Inl OSError)\<rparr>"

text \<open>
  The results of the concrete calls: a text found in the sidecar file, a text found in
  untyped trailer metadata, nothing found in a readable image, an unreadable image.
\<close>

definition found_sidecar_text :: result where
  "found_sidecar_text =
     \<lparr>success = True, detected = True, watermark_text = JStr (py ''hello''),
      watermark_type = Some (py ''text''), watermark_image_url = JNull,
      confidence = 0.99, message = NoMessage\<rparr>"

definition found_trailer_untyped :: result where
  "found_trailer_untyped =
     \<lparr>success = True, detected = True, watermark_text = JStr (py ''hi''),
      watermark_type = Some (py ''text''), watermark_image_url = JNull,
      confidence = 0.9, message = NoMessage\<rparr>"

definition found_nothing :: result where
  "found_nothing =
     \<lparr>success = True, detected = False, watermark_text = JStr [],
      watermark_type = None, watermark_image_url = JNull,
      confidence = 0, message = NoWatermarkDetected\<rparr>"

definition unreadable :: result where
  "unreadable =
     \<lparr>success = False, detected = False, watermark_text = JStr [],
      watermark_type = None, watermark_image_url = JNull,
      confidence = 0, message = CannotReadImage suspect\<rparr>"

text \<open>
  Worlds for embedding: a grey 4 by 4 carrier image; and the same with a 2 by 2
  reference image beside it.
\<close>

definition carrier_path :: path where
  "carrier_path = py ''/srv/uploads/in.png''"

definition reference_path :: path where
  "reference_path = py ''/srv/uploads/logo.png''"

definition grey4 :: carrier where
  "grey4 = replicate 4 (replicate 4 (100, 100, 100))"

definition logo :: wm_image where
  "logo = Gray [[200, 10], [10, 200]]"

definition world_embed :: world where
  "world_embed =
     world_empty\<lparr>file_exists := (\<lambda>p. p = carrier_path),
                 imread := (\<lambda>p. if p = carrier_path then Some grey4 else None)\<rparr>"

definition world_embed_reference :: world where
  "world_embed_reference =
     world_embed\<lparr>file_exists := (\<lambda>p. p = carrier_path \<or> p = reference_path),
                 imread_unchanged := (\<lambda>p. if p = reference_path then Some logo else None)\<rparr>"

text \<open>The reference image is on disk and cannot be decoded.\<close>

definition world_embed_broken_reference :: world where
  "world_embed_broken_reference =
     world_embed\<lparr>file_exists := (\<lambda>p. p = carrier_path \<or> p = reference_path)\<rparr>"

text \<open>
  What embedding the text "hi" into the grey carrier gives in \<open>world_embed\<close>: the
  image, the state after \<open>cv2.imwrite\<close>, and what the call has done when it returns.
\<close>

definition marked4 :: carrier where
  "marked4 =
     [[(100, 100, 100), (100, 100, 100), (100, 100, 100), (100, 100, 100)],
      [(100, 100, 100), (100, 100, 100), (100, 100, 100), (100, 100, 100)],
      [(100, 100, 100), (100, 100, 100), (117, 100, 100), (117, 100, 100)],
      [(100, 100, 100), (100, 100, 100), (117, 100, 100), (117, 100, 100)]]"

definition text_metadata_hi :: metadata where
  "text_metadata_hi =
     [(py ''watermark_type'', JStr (py ''text'')),
      (py ''watermark_text'', JStr (py ''hi'')),
      (py ''text_length'', JNum 2),
      (py ''matrix_size'', JNum 32)]"

definition saved_hi :: saved where
  "saved_hi =
     \<lparr>s_output_path = py ''/srv/processed/1b1b.png'', s_image = marked4, s_imwrite = True,
      s_metadata = text_metadata_hi,
      s_watermark = text_matrix [104, 105] 32,
      s_files = [py ''/srv/processed/1b1b.png'']\<rparr>"

definition embedded_hi :: embedded where
  "embedded_hi =
     \<lparr>returned_path = py ''/srv/processed/1b1b.png'', image = marked4,
      metadata_written =
        text_metadata_hi @
        [(py ''algorithm'', JStr (py ''dwt'')),
         (py ''wavelet'', JStr (py ''haar'')),
         (py ''level'', JNum 1),
         (py ''alpha'', JNum 100),
         (py ''watermark_size'', JArr [JNum 32, JNum 32]),
         (py ''timestamp'', JStr (py ''2025-01-01T00:00:00''))],
      trailer_appended = True,
      files_created = [py ''/srv/processed/1b1b.png'', py ''/srv/processed/1b1b.png.metadata'']\<rparr>"

text \<open>What the encoder gives for the reference image in \<open>world_embed_reference\<close>.\<close>

definition logo_metadata :: metadata where
  "logo_metadata =
     [(py ''watermark_type'', JStr (py ''image'')),
      (py ''watermark_image_url'', JStr (py ''/static/original_watermark_0a0a.png'')),
      (py ''backup_image_url'', JStr (py ''/static/backup_watermark_0a0a.png'')),
      (py ''matrix_size'', JNum 32)]"

definition logo_prepared :: prepared where
  "logo_prepared =
     (nearest [[255, 0], [0, 255]] 32 32, logo_metadata,
      [py ''/srv/static/original_watermark_0a0a.png'',
       py ''/srv/processed/backup_watermark_0a0a.png''])"

text \<open>A resized payload matrix of one row and a 2 by 2 sub-band to embed it in.\<close>

definition wr0 :: "8 word ndarray" where
  "wr0 = [[1, 0]]"

definition ll0 :: "real ndarray" where
  "ll0 = [[500, 40], [7, 8]]"

section \<open>Properties\<close>

subsection \<open>Loops over an array\<close>

lemma for_range_0 [simp]: "for_range 0 body s = s"
  by (simp add: for_range_def)

lemma for_range_Suc [simp]: "for_range (Suc n) body s = body n (for_range n body s)"
  by (simp add: for_range_def)

lemma length_upd2 [simp]: "length (upd2 m i j v) = length m"
  by (simp add: upd2_def)

lemma length_upd2_row [simp]: "length (upd2 m i j v ! r) = length (m ! r)"
  by (cases "i < length m") (simp_all add: upd2_def nth_list_update list_update_beyond)

lemma upd2_nth:
  "r < length m \<Longrightarrow> c < length (m ! r) \<Longrightarrow>
   upd2 m i j v ! r ! c = (if r = i \<and> c = j then v else m ! r ! c)"
  by (cases "r = i"; cases "c = j") (simp_all add: upd2_def)

lemma row_loop:
  assumes step: "\<And>j m. step j m = (if P j then upd2 m r0 (b + j) (g j (m ! r0 ! (b + j))) else m)"
  shows "length (for_range n step m) = length m
       \<and> (\<forall>r. length (for_range n step m ! r) = length (m ! r))
       \<and> (\<forall>r c. r < length m \<longrightarrow> c < length (m ! r) \<longrightarrow>
            for_range n step m ! r ! c =
              (if r = r0 \<and> b \<le> c \<and> c < b + n \<and> P (c - b) then g (c - b) (m ! r ! c) else m ! r ! c))"
proof (induction n)
  case 0
  then show ?case by auto
next
  case (Suc n)
  then show ?case
    by (auto simp: step upd2_nth less_Suc_eq)
qed

lemma grid_loop:
  assumes step: "\<And>i j m. step i j m = (if P i j then upd2 m (a + i) (b + j) (g i j (m ! (a + i) ! (b + j))) else m)"
  shows "length (for_range n (\<lambda>i. for_range k (step i)) m) = length m
       \<and> (\<forall>r. length (for_range n (\<lambda>i. for_range k (step i)) m ! r) = length (m ! r))
       \<and> (\<forall>r c. r < length m \<longrightarrow> c < length (m ! r) \<longrightarrow>
            for_range n (\<lambda>i. for_range k (step i)) m ! r ! c =
              (if a \<le> r \<and> r < a + n \<and> b \<le> c \<and> c < b + k \<and> P (r - a) (c - b)
               then g (r - a) (c - b) (m ! r ! c) else m ! r ! c))"
proof (induction n)
  case 0
  then show ?case by auto
next
  case (Suc n)
  let ?m = "for_range n (\<lambda>i. for_range k (step i)) m"
  have row: "length (for_range k (step n) ?m) = length ?m
       \<and> (\<forall>r. length (for_range k (step n) ?m ! r) = length (?m ! r))
       \<and> (\<forall>r c. r < length ?m \<longrightarrow> c < length (?m ! r) \<longrightarrow>
            for_range k (step n) ?m ! r ! c =
              (if r = a + n \<and> b \<le> c \<and> c < b + k \<and> P n (c - b) then g n (c - b) (?m ! r ! c) else ?m ! r ! c))"
    by (rule row_loop) (simp add: step)
  show ?case
    using Suc row by (auto simp: less_Suc_eq)
qed

subsection \<open>Blind signal extraction\<close>

lemma wm_size_le: "2 * wm_size ll \<le> shape0 ll \<and> 2 * wm_size ll \<le> shape1 ll"
  by (simp add: wm_size_def) linarith

lemma window_in_range:
  "i < wm_size ll \<Longrightarrow> h_offset ll + i < shape0 ll"
  "j < wm_size ll \<Longrightarrow> w_offset ll + j < shape1 ll"
  using wm_size_le [of ll] by (simp_all add: h_offset_def w_offset_def) linarith+

lemma zeros_shape [simp]:
  "length (zeros h w) = h" "i < h \<Longrightarrow> length (zeros h w ! i) = w"
  "i < h \<Longrightarrow> j < w \<Longrightarrow> zeros h w ! i ! j = 0"
  by (simp_all add: zeros_def)

lemma extract_cell_step:
  "extract_cell ll i j m =
     (if h_offset ll + i < shape0 ll \<and> w_offset ll + j < shape1 ll
         \<and> ll ! (h_offset ll + i) ! (w_offset ll + j) > real alpha / 2
      then upd2 m (0 + i) (0 + j)
             ((\<lambda>i j old. byte_val (ll ! (h_offset ll + i) ! (w_offset ll + j))) i j (m ! (0 + i) ! (0 + j)))
      else m)"
  by (simp add: extract_cell_def Let_def)

lemma extract_matrix_shape:
  "length (extract_matrix ll) = wm_size ll"
  "i < wm_size ll \<Longrightarrow> length (extract_matrix ll ! i) = wm_size ll"
  unfolding extract_matrix_def
  using grid_loop [of "extract_cell ll", OF extract_cell_step, of "wm_size ll" "wm_size ll" "zeros (wm_size ll) (wm_size ll)"]
  by simp_all

lemma extract_matrix_nth:
  assumes "i < wm_size ll" "j < wm_size ll"
  shows "extract_matrix ll ! i ! j =
           (if ll ! (h_offset ll + i) ! (w_offset ll + j) > real alpha / 2
            then byte_val (ll ! (h_offset ll + i) ! (w_offset ll + j)) else 0)"
  unfolding extract_matrix_def
  using grid_loop [of "extract_cell ll", OF extract_cell_step, of "wm_size ll" "wm_size ll" "zeros (wm_size ll) (wm_size ll)"]
    assms window_in_range [of i ll] window_in_range(2) [of j ll]
  by simp

lemma uint_byte_val: "uint (byte_val v) = max 0 (min 255 (py_int (v / real alpha)))"
  unfolding byte_val_def
  by (simp add: uint_word_of_int take_bit_int_eq_self)

lemma byte_val_neg: "v < 0 \<Longrightarrow> max 0 (min 255 (py_int (v / real alpha))) = 0"
  by (simp add: py_int_def alpha_def)

lemma centred_offset:
  "n \<le> H \<Longrightarrow> int H - int ((H - n) div 2 + n) - int ((H - n) div 2) \<in> {0, 1}"
proof -
  assume "n \<le> H"
  then obtain d where "H = n + d" using le_Suc_ex by blast
  then show ?thesis by simp presburger
qed

text \<open>
  Claim C4. The recovered matrix is square with side
  \<open>min(32, subbandHeight div 2, subbandWidth div 2)\<close>; the window read starts at
  \<open>(h_offset, w_offset)\<close>, lies inside the sub-band and is centred (the margin after
  it exceeds the margin before it by 0 or 1). A cell is nonzero only if the magnitude of
  its coefficient exceeds \<open>alpha / 2\<close>; for every coefficient of such magnitude the
  cell is \<open>int(coefficient / alpha)\<close> clamped to 0..255; every other cell is zero.
\<close>

theorem blind_extraction_cells:
  assumes "rect ll_band"
  shows "wm_size ll_band = min 32 (min (shape0 ll_band div 2) (shape1 ll_band div 2))
       \<and> shape0 (extract_matrix ll_band) = wm_size ll_band
       \<and> (\<forall>i<wm_size ll_band. length (extract_matrix ll_band ! i) = wm_size ll_band)
       \<and> int (shape0 ll_band) - int (h_offset ll_band + wm_size ll_band) - int (h_offset ll_band) \<in> {0, 1}
       \<and> int (shape1 ll_band) - int (w_offset ll_band + wm_size ll_band) - int (w_offset ll_band) \<in> {0, 1}
       \<and> (\<forall>i<wm_size ll_band. \<forall>j<wm_size ll_band.
            h_offset ll_band + i < shape0 ll_band \<and> w_offset ll_band + j < shape1 ll_band
          \<and> (extract_matrix ll_band ! i ! j \<noteq> 0 \<longrightarrow>
               \<bar>ll_band ! (h_offset ll_band + i) ! (w_offset ll_band + j)\<bar> > real alpha / 2)
          \<and> (\<bar>ll_band ! (h_offset ll_band + i) ! (w_offset ll_band + j)\<bar> > real alpha / 2 \<longrightarrow>
               uint (extract_matrix ll_band ! i ! j) =
                 max 0 (min 255 (py_int (ll_band ! (h_offset ll_band + i) ! (w_offset ll_band + j) / real alpha))))
          \<and> (\<not> \<bar>ll_band ! (h_offset ll_band + i) ! (w_offset ll_band + j)\<bar> > real alpha / 2 \<longrightarrow>
               extract_matrix ll_band ! i ! j = 0))"
proof -
  have size: "wm_size ll_band = min 32 (min (shape0 ll_band div 2) (shape1 ll_band div 2))"
    by (simp add: wm_size_def)
  have shape: "shape0 (extract_matrix ll_band) = wm_size ll_band"
    "\<forall>i<wm_size ll_band. length (extract_matrix ll_band ! i) = wm_size ll_band"
    by (simp_all add: shape0_def extract_matrix_shape)
  have centred:
    "int (shape0 ll_band) - int (h_offset ll_band + wm_size ll_band) - int (h_offset ll_band) \<in> {0, 1}"
    "int (shape1 ll_band) - int (w_offset ll_band + wm_size ll_band) - int (w_offset ll_band) \<in> {0, 1}"
    using wm_size_le [of ll_band] centred_offset [of "wm_size ll_band" "shape0 ll_band"]
      centred_offset [of "wm_size ll_band" "shape1 ll_band"]
    unfolding h_offset_def w_offset_def by linarith+
  have cells: "h_offset ll_band + i < shape0 ll_band \<and> w_offset ll_band + j < shape1 ll_band
          \<and> (extract_matrix ll_band ! i ! j \<noteq> 0 \<longrightarrow>
               \<bar>ll_band ! (h_offset ll_band + i) ! (w_offset ll_band + j)\<bar> > real alpha / 2)
          \<and> (\<bar>ll_band ! (h_offset ll_band + i) ! (w_offset ll_band + j)\<bar> > real alpha / 2 \<longrightarrow>
               uint (extract_matrix ll_band ! i ! j) =
                 max 0 (min 255 (py_int (ll_band ! (h_offset ll_band + i) ! (w_offset ll_band + j) / real alpha))))
          \<and> (\<not> \<bar>ll_band ! (h_offset ll_band + i) ! (w_offset ll_band + j)\<bar> > real alpha / 2 \<longrightarrow>
               extract_matrix ll_band ! i ! j = 0)"
    if "i < wm_size ll_band" "j < wm_size ll_band" for i j
  proof -
    let ?v = "ll_band ! (h_offset ll_band + i) ! (w_offset ll_band + j)"
    have cell: "extract_matrix ll_band ! i ! j = (if ?v > real alpha / 2 then byte_val ?v else 0)"
      using that by (rule extract_matrix_nth)
    show ?thesis
    proof (cases "?v > real alpha / 2")
      case True
      then show ?thesis
        using that cell by (simp add: window_in_range uint_byte_val)
    next
      case False
      then show ?thesis
        using that cell byte_val_neg [of ?v] by (auto simp: window_in_range)
    qed
  qed
  have all_cells: "\<forall>i<wm_size ll_band. \<forall>j<wm_size ll_band.
            h_offset ll_band + i < shape0 ll_band \<and> w_offset ll_band + j < shape1 ll_band
          \<and> (extract_matrix ll_band ! i ! j \<noteq> 0 \<longrightarrow>
               \<bar>ll_band ! (h_offset ll_band + i) ! (w_offset ll_band + j)\<bar> > real alpha / 2)
          \<and> (\<bar>ll_band ! (h_offset ll_band + i) ! (w_offset ll_band + j)\<bar> > real alpha / 2 \<longrightarrow>
               uint (extract_matrix ll_band ! i ! j) =
                 max 0 (min 255 (py_int (ll_band ! (h_offset ll_band + i) ! (w_offset ll_band + j) / real alpha))))
          \<and> (\<not> \<bar>ll_band ! (h_offset ll_band + i) ! (w_offset ll_band + j)\<bar> > real alpha / 2 \<longrightarrow>
               extract_matrix ll_band ! i ! j = 0)"
    using cells by blast
  show ?thesis
    by (intro conjI) (fact size, fact shape(1), fact shape(2), fact centred(1), fact centred(2), fact all_cells)
qed

theorem blind_extraction_cells_witness:
  "rect ll_example \<and> wm_size ll_example = 2
   \<and> uint (extract_matrix ll_example ! 0 ! 0) = 8
   \<and> uint (extract_matrix ll_example ! 0 ! 1) = 0
   \<and> uint (extract_matrix ll_example ! 1 ! 0) = 0
   \<and> uint (extract_matrix ll_example ! 1 ! 1) = 2"
proof -
  have r: "rect ll_example"
    by (simp add: rect_def ll_example_def shape1_def)
  have n: "wm_size ll_example = 2" "h_offset ll_example = 1" "w_offset ll_example = 1"
    by (simp_all add: wm_size_def h_offset_def w_offset_def ll_example_def shape0_def shape1_def)
  have v: "ll_example ! 1 ! 1 = 800" "ll_example ! 1 ! 2 = 75"
    "ll_example ! 2 ! 1 = - 300" "ll_example ! 2 ! 2 = 260"
    by (simp_all add: ll_example_def)
  have cells: "\<forall>i<2. \<forall>j<2.
      (\<bar>ll_example ! (1 + i) ! (1 + j)\<bar> > real alpha / 2 \<longrightarrow>
         uint (extract_matrix ll_example ! i ! j) =
           max 0 (min 255 (py_int (ll_example ! (1 + i) ! (1 + j) / real alpha))))"
    using blind_extraction_cells [OF r] unfolding n by blast
  have "uint (extract_matrix ll_example ! 0 ! 0) = 8"
    using cells [rule_format, of 0 0] by (simp add: ll_example_def alpha_def py_int_def)
  moreover have "uint (extract_matrix ll_example ! 0 ! 1) = 0"
    using cells [rule_format, of 0 1] by (simp add: ll_example_def alpha_def py_int_def)
  moreover have "uint (extract_matrix ll_example ! 1 ! 0) = 0"
    using cells [rule_format, of 1 0] by (simp add: ll_example_def alpha_def py_int_def)
  moreover have "uint (extract_matrix ll_example ! 1 ! 1) = 2"
    using cells [rule_format, of 1 1] by (simp add: ll_example_def alpha_def py_int_def)
  ultimately show ?thesis using r n by simp
qed


lemma unat_square_le: "unat (x * x) \<le> unat x * unat x" for x :: "8 word"
  by (simp add: unat_mult_lem unat_word_ariths)

lemma signal_power_le:
  "signal_power m \<le> sum_list (map (\<lambda>x. unat x * unat x) (concat m))"
  unfolding signal_power_def
  by (rule sum_list_mono) (simp add: unat_square_le)

text \<open>
  Claim C3. A positive blind detection is declared only if the nonzero cells are at
  least 25 percent of all cells (the code asks for more than 25 percent) and the mean of
  the squared cell values exceeds 50 (the code takes each square modulo 256, as
  \<open>np.square\<close> does on \<open>uint8\<close>, which is never more than the square); the
  confidence reported is \<open>min(0.8, nonzeroCount / totalCells)\<close>, hence at most 0.8.
\<close>

theorem blind_detection_thresholds:
  assumes "blind_confidence ll_band = Some c"
  shows "real (count_nonzero (extract_matrix ll_band))
           \<ge> 0.25 * real (wm_size ll_band * wm_size ll_band)
       \<and> real (count_nonzero (extract_matrix ll_band))
           > real (wm_size ll_band * wm_size ll_band) * 0.25
       \<and> real (sum_list (map (\<lambda>x. unat x * unat x) (concat (extract_matrix ll_band))))
             / real (wm_size ll_band * wm_size ll_band) > 50
       \<and> real (signal_power (extract_matrix ll_band))
             / real (wm_size ll_band * wm_size ll_band) > 50
       \<and> c = min 0.8 (real (count_nonzero (extract_matrix ll_band))
                        / real (wm_size ll_band * wm_size ll_band))
       \<and> c \<le> 0.8"
proof -
  let ?n = "wm_size ll_band"
  let ?nz = "count_nonzero (extract_matrix ll_band)"
  from assms have nz: "real ?nz > real (?n * ?n) * 0.25"
    and pos: "?n * ?n > 0"
    and avg: "real (signal_power (extract_matrix ll_band)) / real (?n * ?n) > 50"
    and c: "c = min 0.8 (real ?nz / real (?n * ?n))"
    by (auto simp: blind_confidence_def Let_def split: if_splits)
  have "real (signal_power (extract_matrix ll_band)) / real (?n * ?n)
        \<le> real (sum_list (map (\<lambda>x. unat x * unat x) (concat (extract_matrix ll_band)))) / real (?n * ?n)"
    using signal_power_le [of "extract_matrix ll_band"] pos
    by (simp add: divide_right_mono)
  with avg have msq: "real (sum_list (map (\<lambda>x. unat x * unat x) (concat (extract_matrix ll_band))))
             / real (?n * ?n) > 50"
    by linarith
  have quarter: "real ?nz \<ge> 0.25 * real (?n * ?n)"
    using nz by simp
  have bound: "c \<le> 0.8"
    unfolding c by (rule min.cobounded1)
  show ?thesis
    by (intro conjI) (fact quarter, fact nz, fact msq, fact avg, fact c, fact bound)
qed

theorem blind_detection_thresholds_witness:
  "blind_confidence ll_marked = Some 0.8
   \<and> real (count_nonzero (extract_matrix ll_marked))
        \<ge> 0.25 * real (wm_size ll_marked * wm_size ll_marked)
   \<and> (0.8 :: real) = min 0.8 (real (count_nonzero (extract_matrix ll_marked))
                               / real (wm_size ll_marked * wm_size ll_marked))"
proof -
  have h: "blind_confidence ll_marked = Some 0.8"
    by code_simp
  from blind_detection_thresholds [OF h] h show ?thesis
    by simp
qed

subsection \<open>The recovery operation\<close>

lemma pending_initial: "pending (initial_result, [])"
  by (simp add: pending_def initial_result_def)

lemma image_branch_flow:
  assumes "pending s"
  shows "case image_branch w md co cb s of
           Return s' \<Rightarrow> detected (fst s') \<and> success (fst s')
                        \<and> (confidence (fst s') = co \<or> confidence (fst s') = cb)
         | Fall s' \<Rightarrow> pending s'
         | Raise e s' \<Rightarrow> pending s'"
  using assms
  by (simp add: image_branch_def Let_def pending_def split: sum.splits)

lemma text_branch_flow:
  "case text_branch md c s of
     Return s' \<Rightarrow> detected (fst s') \<and> success (fst s') \<and> confidence (fst s') = c
   | Fall s' \<Rightarrow> False
   | Raise e s' \<Rightarrow> False"
  by (simp add: text_branch_def)

lemma untyped_branch_flow:
  assumes "pending s"
  shows "case untyped_branch w md s of
           Return s' \<Rightarrow> detected (fst s') \<and> success (fst s') \<and> confidence (fst s') = 0.9
         | Fall s' \<Rightarrow> pending s'
         | Raise e s' \<Rightarrow> pending s'"
  using assms
  by (simp add: untyped_branch_def Let_def pending_def split: sum.splits)

lemma try_except_log_flow:
  assumes "case f of Return s' \<Rightarrow> P s' | Fall s' \<Rightarrow> pending s' | Raise e s' \<Rightarrow> pending s'"
  shows "case try_except_log f of Return s' \<Rightarrow> P s' | Fall s' \<Rightarrow> pending s' | Raise e s' \<Rightarrow> False"
  using assms by (cases f) simp_all

lemma sidecar_stage_eq:
  "sidecar_stage w p s =
     (if file_exists w (p @ py ''.metadata'') then
        (case load_json w (p @ py ''.metadata'') of
           Inl e \<Rightarrow> Fall s
         | Inr (JObj metadata) \<Rightarrow>
             if dict_get metadata (py ''watermark_type'') JNull = JStr (py ''image'')
             then try_except_log (image_branch w metadata 0.99 0.95 s)
             else if dict_get metadata (py ''watermark_type'') JNull = JStr (py ''text'')
             then text_branch metadata 0.99 s
             else Fall s
         | Inr _ \<Rightarrow> Fall s)
      else Fall s)"
  by (simp add: sidecar_stage_def text_branch_def split: sum.splits json.splits)

lemma trailer_stage_eq:
  "trailer_stage w p s =
     (case read_bytes w p of
        Inl e \<Rightarrow> Fall s
      | Inr content \<Rightarrow>
          if bytes_find content marker > 0 then
            (case loads w (drop (nat (bytes_find content marker) + length marker) content) of
               Inl e \<Rightarrow> Fall s
             | Inr (JObj embedded_metadata) \<Rightarrow>
                 if dict_get embedded_metadata (py ''watermark_type'') JNull = JStr (py ''image'')
                 then try_except_log (image_branch w embedded_metadata 0.95 0.90 s)
                 else if dict_get embedded_metadata (py ''watermark_type'') JNull = JStr (py ''text'')
                 then text_branch embedded_metadata 0.95 s
                 else try_except_log (untyped_branch w embedded_metadata s)
             | Inr _ \<Rightarrow> Fall s)
          else Fall s)"
  by (simp add: trailer_stage_def text_branch_def Let_def split: sum.splits json.splits)

lemma sidecar_stage_flow:
  assumes "pending s"
  shows "case sidecar_stage w p s of
           Return s' \<Rightarrow> detected (fst s') \<and> success (fst s')
                        \<and> (confidence (fst s') = 0.99 \<or> confidence (fst s') = 0.95)
         | Fall s' \<Rightarrow> pending s'
         | Raise e s' \<Rightarrow> False"
proof -
  have img: "case try_except_log (image_branch w md 0.99 0.95 s) of
           Return s' \<Rightarrow> detected (fst s') \<and> success (fst s')
                        \<and> (confidence (fst s') = 0.99 \<or> confidence (fst s') = 0.95)
         | Fall s' \<Rightarrow> pending s'
         | Raise e s' \<Rightarrow> False" for md
    by (rule try_except_log_flow) (rule image_branch_flow [OF assms])
  have tx: "case text_branch md 0.99 s of
           Return s' \<Rightarrow> detected (fst s') \<and> success (fst s')
                        \<and> (confidence (fst s') = 0.99 \<or> confidence (fst s') = 0.95)
         | Fall s' \<Rightarrow> pending s'
         | Raise e s' \<Rightarrow> False" for md
    by (simp add: text_branch_def)
  show ?thesis
    unfolding sidecar_stage_eq
    using assms img tx by (simp split: sum.splits json.splits)
qed

lemma trailer_stage_flow:
  assumes "pending s"
  shows "case trailer_stage w p s of
           Return s' \<Rightarrow> detected (fst s') \<and> success (fst s')
                        \<and> (confidence (fst s') = 0.95 \<or> confidence (fst s') = 0.9)
         | Fall s' \<Rightarrow> pending s'
         | Raise e s' \<Rightarrow> False"
proof -
  have img: "case try_except_log (image_branch w md 0.95 0.90 s) of
           Return s' \<Rightarrow> detected (fst s') \<and> success (fst s')
                        \<and> (confidence (fst s') = 0.95 \<or> confidence (fst s') = 0.9)
         | Fall s' \<Rightarrow> pending s'
         | Raise e s' \<Rightarrow> False" for md
    by (rule try_except_log_flow)
       (use image_branch_flow [OF assms, where w = w and md = md and co = "0.95" and cb = "0.90"] in \<open>auto split: flow.splits\<close>)
  have tx: "case text_branch md 0.95 s of
           Return s' \<Rightarrow> detected (fst s') \<and> success (fst s')
                        \<and> (confidence (fst s') = 0.95 \<or> confidence (fst s') = 0.9)
         | Fall s' \<Rightarrow> pending s'
         | Raise e s' \<Rightarrow> False" for md
    by (simp add: text_branch_def)
  have unt: "case try_except_log (untyped_branch w md s) of
           Return s' \<Rightarrow> detected (fst s') \<and> success (fst s')
                        \<and> (confidence (fst s') = 0.95 \<or> confidence (fst s') = 0.9)
         | Fall s' \<Rightarrow> pending s'
         | Raise e s' \<Rightarrow> False" for md
    by (rule try_except_log_flow)
       (use untyped_branch_flow [OF assms, where w = w and md = md] in \<open>auto split: flow.splits\<close>)
  show ?thesis
    unfolding trailer_stage_eq
    using assms img tx unt by (simp split: sum.splits json.splits)
qed

lemma blind_confidence_range:
  assumes "blind_confidence ll = Some c"
  shows "0 \<le> c \<and> c \<le> 0.8"
proof -
  from assms have c: "c = min 0.8 (real (count_nonzero (extract_matrix ll))
                                   / real (wm_size ll * wm_size ll))"
    by (auto simp: blind_confidence_def Let_def split: if_splits)
  have "0 \<le> real (count_nonzero (extract_matrix ll)) / real (wm_size ll * wm_size ll)"
    by simp
  then have "0 \<le> c" unfolding c by simp
  moreover have "c \<le> 0.8" unfolding c by (rule min.cobounded1)
  ultimately show ?thesis by simp
qed

lemma signal_stage_flow:
  assumes "pending s"
  shows "case signal_stage w p s of
           Return s' \<Rightarrow> (detected (fst s') \<longrightarrow> success (fst s'))
                        \<and> 0 \<le> confidence (fst s') \<and> confidence (fst s') \<le> 1
         | Fall s' \<Rightarrow> False
         | Raise e s' \<Rightarrow> pending s'"
  using assms blind_confidence_range
  by (fastforce simp: signal_stage_def pending_def Let_def split: option.splits sum.splits prod.splits)

lemma image_branch_confidence:
  assumes "image_branch w md co cb s = Return s'"
  shows "if original_resolves w md then confidence (fst s') = co
         else confidence (fst s') = cb \<and> backup_resolves w md"
  using assms
  by (auto simp: image_branch_def Let_def original_resolves_def backup_resolves_def
           split: sum.splits if_splits)

lemma try_except_log_Return: "try_except_log f = Return s \<longleftrightarrow> f = Return s"
  by (cases f) simp_all

lemma sidecar_hit_confidence:
  assumes "sidecar_stage w p s = Return s'"
  shows "\<exists>md. load_json w (p @ py ''.metadata'') = Inr (JObj md)
           \<and> (type_of md = JStr (py ''image'') \<or> type_of md = JStr (py ''text''))
           \<and> confidence (fst s') =
                 (if type_of md = JStr (py ''image'') \<and> \<not> original_resolves w md then 0.95 else 0.99)
           \<and> (type_of md = JStr (py ''image'') \<and> \<not> original_resolves w md \<longrightarrow> backup_resolves w md)"
proof -
  from assms obtain md where md: "load_json w (p @ py ''.metadata'') = Inr (JObj md)"
    by (auto simp: sidecar_stage_eq split: if_splits sum.splits json.splits)
  show ?thesis
  proof (cases "type_of md = JStr (py ''image'')")
    case True
    with assms md have "image_branch w md 0.99 0.95 s = Return s'"
      by (simp add: sidecar_stage_eq type_of_def try_except_log_Return split: if_splits)
    from image_branch_confidence [OF this] True md show ?thesis
      by (auto split: if_splits)
  next
    case False
    with assms md have "type_of md = JStr (py ''text'')" "text_branch md 0.99 s = Return s'"
      by (simp_all add: sidecar_stage_eq type_of_def split: if_splits)
    with False md show ?thesis
      by (auto simp: text_branch_def)
  qed
qed

lemma untyped_branch_confidence:
  assumes "untyped_branch w md s = Return s'"
  shows "confidence (fst s') = 0.9"
  using assms
  by (auto simp: untyped_branch_def Let_def split: sum.splits if_splits)

lemma trailer_hit_confidence:
  assumes "trailer_stage w p s = Return s'"
  shows "\<exists>content md. read_bytes w p = Inr content \<and> bytes_find content marker > 0
           \<and> loads w (drop (nat (bytes_find content marker) + length marker) content) = Inr (JObj md)
           \<and> confidence (fst s') =
                 (if type_of md = JStr (py ''image'') then
                    (if original_resolves w md then 0.95 else 0.90)
                  else if type_of md = JStr (py ''text'') then 0.95
                  else 0.90)
           \<and> (type_of md = JStr (py ''image'') \<and> \<not> original_resolves w md \<longrightarrow> backup_resolves w md)"
proof -
  from assms obtain content md where c: "read_bytes w p = Inr content"
    "bytes_find content marker > 0"
    "loads w (drop (nat (bytes_find content marker) + length marker) content) = Inr (JObj md)"
    by (auto simp: trailer_stage_eq split: if_splits sum.splits json.splits)
  consider (img) "type_of md = JStr (py ''image'')"
    | (tx) "type_of md \<noteq> JStr (py ''image'')" "type_of md = JStr (py ''text'')"
    | (un) "type_of md \<noteq> JStr (py ''image'')" "type_of md \<noteq> JStr (py ''text'')"
    by blast
  then show ?thesis
  proof cases
    case img
    with assms c have "image_branch w md 0.95 0.90 s = Return s'"
      by (simp add: trailer_stage_eq type_of_def try_except_log_Return)
    from image_branch_confidence [OF this] img c show ?thesis
      by (auto split: if_splits)
  next
    case tx
    with assms c have "text_branch md 0.95 s = Return s'"
      by (simp add: trailer_stage_eq type_of_def)
    with tx c show ?thesis
      by (auto simp: text_branch_def)
  next
    case un
    with assms c have "untyped_branch w md s = Return s'"
      by (simp add: trailer_stage_eq type_of_def try_except_log_Return)
    from untyped_branch_confidence [OF this] un c show ?thesis
      by auto
  qed
qed

lemma image_branch_frame [simp]:
  "image_branch (w\<lparr>read_bytes := rb\<rparr>) = image_branch w"
  "image_branch (w\<lparr>loads := ld\<rparr>) = image_branch w"
  "image_branch (w\<lparr>imread := im\<rparr>) = image_branch w"
  "image_branch (w\<lparr>wavedec2 := wd\<rparr>) = image_branch w"
  "image_branch (w\<lparr>save_view_ok := sv\<rparr>) = image_branch w"
  by (simp_all add: image_branch_def fun_eq_iff Let_def split: sum.splits)

lemma sidecar_stage_frame [simp]:
  "sidecar_stage (w\<lparr>read_bytes := rb\<rparr>) = sidecar_stage w"
  "sidecar_stage (w\<lparr>loads := ld\<rparr>) = sidecar_stage w"
  "sidecar_stage (w\<lparr>imread := im\<rparr>) = sidecar_stage w"
  "sidecar_stage (w\<lparr>wavedec2 := wd\<rparr>) = sidecar_stage w"
  "sidecar_stage (w\<lparr>save_view_ok := sv\<rparr>) = sidecar_stage w"
  by (simp_all add: sidecar_stage_def fun_eq_iff Let_def split: sum.splits json.splits)

lemma untyped_branch_frame [simp]:
  "untyped_branch (w\<lparr>imread := im\<rparr>) = untyped_branch w"
  "untyped_branch (w\<lparr>wavedec2 := wd\<rparr>) = untyped_branch w"
  "untyped_branch (w\<lparr>save_view_ok := sv\<rparr>) = untyped_branch w"
  by (simp_all add: untyped_branch_def fun_eq_iff Let_def split: sum.splits)

lemma trailer_stage_frame [simp]:
  "trailer_stage (w\<lparr>imread := im\<rparr>) = trailer_stage w"
  "trailer_stage (w\<lparr>wavedec2 := wd\<rparr>) = trailer_stage w"
  "trailer_stage (w\<lparr>save_view_ok := sv\<rparr>) = trailer_stage w"
  by (simp_all add: trailer_stage_def fun_eq_iff Let_def split: sum.splits json.splits)

lemma extract_sidecar_wins:
  assumes "sidecar_stage w p (initial_result, []) = Return s"
  shows "extract_watermark w p = Some s"
  using assms by (simp add: extract_watermark_def extract_body_def)

lemma extract_trailer_wins:
  assumes "sidecar_stage w p (initial_result, []) = Fall s1" "trailer_stage w p s1 = Return s"
  shows "extract_watermark w p = Some s"
  using assms by (simp add: extract_watermark_def extract_body_def)

lemma extract_signal_last:
  assumes "sidecar_stage w p (initial_result, []) = Fall s1" "trailer_stage w p s1 = Fall s2"
  shows "extract_body w p = signal_stage w p s2"
  using assms by (simp add: extract_body_def)

text \<open>
  Claim C2, as the code has it. The three sources are tried in order and the first hit
  is the result: a hit of the sidecar file is returned whatever the image file holds, a
  hit of the trailer is returned whatever the pixels hold, and the signal is read only
  after both fell through. A sidecar hit has \<open>detected\<close> and \<open>success\<close> set and
  confidence 0.99, or 0.95 when the metadata is of type image and only the backup copy
  resolves. A trailer hit has confidence 0.95, or 0.90 when the metadata is of type image
  and only the backup copy resolves, and also 0.90 whenever the metadata is neither of
  type image nor of type text.
\<close>

theorem recovery_order_and_confidence:
  "(sidecar_stage w p (initial_result, []) = Return s \<longrightarrow>
      extract_watermark w p = Some s
      \<and> extract_watermark
            (w\<lparr>read_bytes := rb, loads := ld, imread := im, wavedec2 := wd, save_view_ok := sv\<rparr>) p
          = Some s
      \<and> detected (fst s) \<and> success (fst s)
      \<and> (\<exists>md. load_json w (p @ py ''.metadata'') = Inr (JObj md)
            \<and> confidence (fst s) =
                 (if type_of md = JStr (py ''image'') \<and> \<not> original_resolves w md then 0.95 else 0.99)
            \<and> (type_of md = JStr (py ''image'') \<and> \<not> original_resolves w md \<longrightarrow> backup_resolves w md)))
   \<and> (sidecar_stage w p (initial_result, []) = Fall s1 \<and> trailer_stage w p s1 = Return s \<longrightarrow>
      extract_watermark w p = Some s
      \<and> extract_watermark (w\<lparr>imread := im, wavedec2 := wd, save_view_ok := sv\<rparr>) p = Some s
      \<and> detected (fst s) \<and> success (fst s)
      \<and> (\<exists>content md. read_bytes w p = Inr content \<and> bytes_find content marker > 0
            \<and> loads w (drop (nat (bytes_find content marker) + length marker) content) = Inr (JObj md)
            \<and> confidence (fst s) =
                 (if type_of md = JStr (py ''image'') then
                    (if original_resolves w md then 0.95 else 0.90)
                  else if type_of md = JStr (py ''text'') then 0.95
                  else 0.90)
            \<and> (type_of md = JStr (py ''image'') \<and> \<not> original_resolves w md \<longrightarrow> backup_resolves w md)))
   \<and> (sidecar_stage w p (initial_result, []) = Fall s1 \<and> trailer_stage w p s1 = Fall s2 \<longrightarrow>
      extract_body w p = signal_stage w p s2)"
proof (intro conjI impI)
  assume a: "sidecar_stage w p (initial_result, []) = Return s"
  show "extract_watermark w p = Some s"
    using a by (rule extract_sidecar_wins)
  show "extract_watermark
            (w\<lparr>read_bytes := rb, loads := ld, imread := im, wavedec2 := wd, save_view_ok := sv\<rparr>) p
          = Some s"
    by (rule extract_sidecar_wins) (simp add: a)
  from sidecar_stage_flow [OF pending_initial, of w p] a
  show "detected (fst s)" "success (fst s)" by simp_all
  from sidecar_hit_confidence [OF a]
  show "\<exists>md. load_json w (p @ py ''.metadata'') = Inr (JObj md)
            \<and> confidence (fst s) =
                 (if type_of md = JStr (py ''image'') \<and> \<not> original_resolves w md then 0.95 else 0.99)
            \<and> (type_of md = JStr (py ''image'') \<and> \<not> original_resolves w md \<longrightarrow> backup_resolves w md)"
    by blast
next
  assume b: "sidecar_stage w p (initial_result, []) = Fall s1 \<and> trailer_stage w p s1 = Return s"
  then have b1: "sidecar_stage w p (initial_result, []) = Fall s1"
    and b2: "trailer_stage w p s1 = Return s" by simp_all
  show "extract_watermark w p = Some s"
    using b1 b2 by (rule extract_trailer_wins)
  show "extract_watermark (w\<lparr>imread := im, wavedec2 := wd, save_view_ok := sv\<rparr>) p = Some s"
    by (rule extract_trailer_wins [where ?s1.0 = s1]) (simp_all add: b1 b2)
  from sidecar_stage_flow [OF pending_initial, of w p] b1 have "pending s1" by simp
  from trailer_stage_flow [OF this, of w p] b2
  show "detected (fst s)" "success (fst s)" by simp_all
  from trailer_hit_confidence [OF b2]
  show "\<exists>content md. read_bytes w p = Inr content \<and> bytes_find content marker > 0
            \<and> loads w (drop (nat (bytes_find content marker) + length marker) content) = Inr (JObj md)
            \<and> confidence (fst s) =
                 (if type_of md = JStr (py ''image'') then
                    (if original_resolves w md then 0.95 else 0.90)
                  else if type_of md = JStr (py ''text'') then 0.95
                  else 0.90)
            \<and> (type_of md = JStr (py ''image'') \<and> \<not> original_resolves w md \<longrightarrow> backup_resolves w md)"
    by blast
next
  assume "sidecar_stage w p (initial_result, []) = Fall s1 \<and> trailer_stage w p s1 = Fall s2"
  then show "extract_body w p = signal_stage w p s2"
    by (simp add: extract_signal_last)
qed

theorem recovery_order_and_confidence_witness:
  "sidecar_stage world_sidecar_text suspect (initial_result, []) = Return (found_sidecar_text, [])
   \<and> extract_watermark world_sidecar_text suspect = Some (found_sidecar_text, [])
   \<and> extract_watermark
        (world_sidecar_text\<lparr>read_bytes := read_bytes world_trailer_untyped,
                             loads := loads world_trailer_untyped,
                             imread := imread world_empty, wavedec2 := wavedec2 world_empty,
                             save_view_ok := False\<rparr>) suspect
       = Some (found_sidecar_text, [])
   \<and> detected found_sidecar_text
   \<and> sidecar_stage world_trailer_untyped suspect (initial_result, []) = Fall (initial_result, [])
   \<and> trailer_stage world_trailer_untyped suspect (initial_result, [])
       = Return (found_trailer_untyped, [])
   \<and> extract_watermark world_trailer_untyped suspect = Some (found_trailer_untyped, [])
   \<and> sidecar_stage world_plain suspect (initial_result, []) = Fall (initial_result, [])
   \<and> trailer_stage world_plain suspect (initial_result, []) = Fall (initial_result, [])
   \<and> extract_body world_plain suspect = signal_stage world_plain suspect (initial_result, [])"
proof -
  have a: "sidecar_stage world_sidecar_text suspect (initial_result, [])
           = Return (found_sidecar_text, [])"
    by code_simp
  have b: "sidecar_stage world_trailer_untyped suspect (initial_result, [])
           = Fall (initial_result, [])
         \<and> trailer_stage world_trailer_untyped suspect (initial_result, [])
           = Return (found_trailer_untyped, [])"
    by code_simp
  have c: "sidecar_stage world_plain suspect (initial_result, []) = Fall (initial_result, [])
         \<and> trailer_stage world_plain suspect (initial_result, []) = Fall (initial_result, [])"
    by code_simp
  note t1 = recovery_order_and_confidence
    [where w = world_sidecar_text and p = suspect and s = "(found_sidecar_text, [])"
       and rb = "read_bytes world_trailer_untyped" and ld = "loads world_trailer_untyped"
       and im = "imread world_empty" and wd = "wavedec2 world_empty" and sv = False,
     THEN conjunct1, rule_format, OF a]
  note t2 = recovery_order_and_confidence
    [where w = world_trailer_untyped and p = suspect and s = "(found_trailer_untyped, [])"
       and ?s1.0 = "(initial_result, [])",
     THEN conjunct2, THEN conjunct1, rule_format, OF b]
  note t3 = recovery_order_and_confidence
    [where w = world_plain and p = suspect and ?s1.0 = "(initial_result, [])"
       and ?s2.0 = "(initial_result, [])",
     THEN conjunct2, THEN conjunct2, rule_format, OF c]
  from a b c t1 t2 t3 show ?thesis
    by simp
qed

text \<open>
  Claim C2 as stated fails: a trailer whose metadata has no \<open>watermark_type\<close> and a
  non-empty text is a hit with confidence 0.90, not 0.95, though no backup copy is
  involved.
\<close>

theorem trailer_untyped_counterexample:
  "sidecar_stage world_trailer_untyped suspect (initial_result, []) = Fall (initial_result, [])
   \<and> read_bytes world_trailer_untyped suspect = Inr (pyb ''PNG'' @ marker @ trailer_json)
   \<and> loads world_trailer_untyped trailer_json = Inr (JObj untyped_metadata)
   \<and> trailer_stage world_trailer_untyped suspect (initial_result, [])
       = Return (found_trailer_untyped, [])
   \<and> extract_watermark world_trailer_untyped suspect = Some (found_trailer_untyped, [])
   \<and> detected found_trailer_untyped
   \<and> confidence found_trailer_untyped = 0.9
   \<and> confidence found_trailer_untyped \<noteq> 0.95
   \<and> \<not> backup_resolves world_trailer_untyped untyped_metadata"
  by code_simp

lemma signal_stage_failure:
  assumes "pending s"
  shows "case signal_stage w p s of
           Return s' \<Rightarrow> (\<not> success (fst s') \<longrightarrow>
                            imread w p = None \<and> message (fst s') = CannotReadImage p)
         | Fall s' \<Rightarrow> False
         | Raise e s' \<Rightarrow>
             (\<exists>img. imread w p = Some img
                \<and> (wavedec2 w (blue_channel img) = Inl e
                   \<or> (\<exists>ll d c. wavedec2 w (blue_channel img) = Inr (ll, d)
                         \<and> blind_confidence ll = Some c \<and> \<not> save_view_ok w \<and> e = OSError)))"
  using assms
  by (auto simp: signal_stage_def pending_def Let_def split: option.splits sum.splits prod.splits)

text \<open>
  Claim C6. When the sidecar file and the trailer give no hit, the image is readable and
  the signal gives no detection, the result has \<open>detected = False\<close>,
  \<open>success = True\<close>, confidence 0 and the no-watermark message. A result with
  \<open>success = False\<close> has \<open>detected = False\<close> and comes only from an image that cannot
  be read, from a transform that raised, or from a failure to write the viewable result
  of a detection.
\<close>

theorem no_detection_is_success:
  "(sidecar_stage w p (initial_result, []) = Fall s1 \<and> trailer_stage w p s1 = Fall s2
      \<and> imread w p = Some img \<and> wavedec2 w (blue_channel img) = Inr (ll_band, d)
      \<and> blind_confidence ll_band = None
    \<longrightarrow> extract_watermark w p
          = Some ((fst s2)\<lparr>detected := False, success := True, message := NoWatermarkDetected\<rparr>,
                  snd s2)
        \<and> confidence (fst s2) = 0)
   \<and> (extract_watermark w p = Some (r, files) \<and> \<not> success r
    \<longrightarrow> \<not> detected r
        \<and> (imread w p = None \<and> message r = CannotReadImage p
           \<or> (\<exists>img e. imread w p = Some img \<and> message r = ExtractionFailed e
                 \<and> (wavedec2 w (blue_channel img) = Inl e
                    \<or> (\<exists>ll d c. wavedec2 w (blue_channel img) = Inr (ll, d)
                          \<and> blind_confidence ll = Some c \<and> \<not> save_view_ok w \<and> e = OSError)))))"
proof (intro conjI impI)
  assume a: "sidecar_stage w p (initial_result, []) = Fall s1 \<and> trailer_stage w p s1 = Fall s2
      \<and> imread w p = Some img \<and> wavedec2 w (blue_channel img) = Inr (ll_band, d)
      \<and> blind_confidence ll_band = None"
  from sidecar_stage_flow [OF pending_initial, of w p] a have "pending s1" by simp
  from trailer_stage_flow [OF this, of w p] a have "pending s2" by simp
  then show "confidence (fst s2) = 0" by (simp add: pending_def)
  from a have "extract_body w p = signal_stage w p s2"
    by (simp add: extract_signal_last)
  with a show "extract_watermark w p
          = Some ((fst s2)\<lparr>detected := False, success := True, message := NoWatermarkDetected\<rparr>,
                  snd s2)"
    by (simp add: extract_watermark_def signal_stage_def)
next
  assume b: "extract_watermark w p = Some (r, files) \<and> \<not> success r"
  note f1 = sidecar_stage_flow [OF pending_initial, of w p]
  have "\<not> detected r
        \<and> (imread w p = None \<and> message r = CannotReadImage p
           \<or> (\<exists>img e. imread w p = Some img \<and> message r = ExtractionFailed e
                 \<and> (wavedec2 w (blue_channel img) = Inl e
                    \<or> (\<exists>ll d c. wavedec2 w (blue_channel img) = Inr (ll, d)
                          \<and> blind_confidence ll = Some c \<and> \<not> save_view_ok w \<and> e = OSError))))"
  proof (cases "sidecar_stage w p (initial_result, [])")
    case (Return s)
    with f1 b show ?thesis by (auto simp: extract_watermark_def extract_body_def)
  next
    case (Raise e s)
    with f1 show ?thesis by simp
  next
    case (Fall t1)
    with f1 have p1: "pending t1" by simp
    note f2 = trailer_stage_flow [OF p1, of w p]
    show ?thesis
    proof (cases "trailer_stage w p t1")
      case (Return s)
      with f2 b Fall show ?thesis by (auto simp: extract_watermark_def extract_body_def)
    next
      case (Raise e s)
      with f2 show ?thesis by simp
    next
      case F2: (Fall t2)
      with f2 have p2: "pending t2" by simp
      note f3 = signal_stage_failure [OF p2, of w p]
      note g3 = signal_stage_flow [OF p2, of w p]
      from Fall F2 have body: "extract_body w p = signal_stage w p t2"
        by (rule extract_signal_last)
      show ?thesis
      proof (cases "signal_stage w p t2")
        case (Return s)
        with f3 g3 b body show ?thesis
          by (auto simp: extract_watermark_def)
      next
        case (Fall s)
        with f3 show ?thesis by simp
      next
        case (Raise e s)
        with f3 g3 b body show ?thesis
          by (auto simp: extract_watermark_def pending_def)
      qed
    qed
  qed
  then show "\<not> detected r" and "imread w p = None \<and> message r = CannotReadImage p
           \<or> (\<exists>img e. imread w p = Some img \<and> message r = ExtractionFailed e
                 \<and> (wavedec2 w (blue_channel img) = Inl e
                    \<or> (\<exists>ll d c. wavedec2 w (blue_channel img) = Inr (ll, d)
                          \<and> blind_confidence ll = Some c \<and> \<not> save_view_ok w \<and> e = OSError)))"
    by simp_all
qed

theorem no_detection_is_success_witness:
  "sidecar_stage world_plain suspect (initial_result, []) = Fall (initial_result, [])
   \<and> trailer_stage world_plain suspect (initial_result, []) = Fall (initial_result, [])
   \<and> imread world_plain suspect = Some black4
   \<and> wavedec2 world_plain (blue_channel black4) = Inr ([[0, 0], [0, 0]], ([], [], []))
   \<and> blind_confidence [[0, 0], [0, 0]] = None
   \<and> extract_watermark world_plain suspect = Some (found_nothing, [])
   \<and> extract_watermark world_empty suspect = Some (unreadable, [])
   \<and> \<not> success unreadable \<and> \<not> detected unreadable
   \<and> imread world_empty suspect = None"
proof -
  have h: "sidecar_stage world_plain suspect (initial_result, []) = Fall (initial_result, [])
     \<and> trailer_stage world_plain suspect (initial_result, []) = Fall (initial_result, [])
     \<and> imread world_plain suspect = Some black4
     \<and> wavedec2 world_plain (blue_channel black4) = Inr ([[0, 0], [0, 0]], ([], [], []))
     \<and> blind_confidence [[0, 0], [0, 0]] = None"
    by code_simp
  have e: "extract_watermark world_empty suspect = Some (unreadable, []) \<and> \<not> success unreadable"
    by code_simp
  have n: "(fst (initial_result, []))\<lparr>detected := False, success := True,
              message := NoWatermarkDetected\<rparr> = found_nothing"
    by code_simp
  note t1 = no_detection_is_success
    [where w = world_plain and p = suspect and ?s1.0 = "(initial_result, [])"
       and ?s2.0 = "(initial_result, [])" and img = black4 and ll_band = "[[0, 0], [0, 0]]"
       and d = "([], [], [])",
     THEN conjunct1, rule_format, OF h]
  note t2 = no_detection_is_success
    [where w = world_empty and p = suspect and r = unreadable and files = "[]",
     THEN conjunct2, rule_format, OF e]
  have "imread world_empty suspect = None"
    by (simp add: world_empty_def)
  with h e t1 t2 n show ?thesis
    by simp
qed

text \<open>
  Claim C9. For every world and every path \<open>extract_watermark\<close> returns a result
  record (with its seven fields), whatever fails on the way; in it \<open>detected\<close> implies
  \<open>success\<close>, and the confidence lies between 0 and 1.
\<close>

theorem extract_watermark_total:
  "\<exists>r files. extract_watermark w image_path = Some (r, files)
      \<and> (detected r \<longrightarrow> success r) \<and> 0 \<le> confidence r \<and> confidence r \<le> 1"
proof -
  note s1 = sidecar_stage_flow [OF pending_initial, of w image_path]
  show ?thesis
  proof (cases "sidecar_stage w image_path (initial_result, [])")
    case (Return s)
    with s1 show ?thesis
      by (cases s) (auto simp: extract_watermark_def extract_body_def)
  next
    case (Raise e s)
    with s1 show ?thesis by simp
  next
    case (Fall s)
    with s1 have p1: "pending s" by simp
    note s2 = trailer_stage_flow [OF p1, of w image_path]
    show ?thesis
    proof (cases "trailer_stage w image_path s")
      case (Return t)
      with s2 Fall show ?thesis
        by (cases t) (auto simp: extract_watermark_def extract_body_def)
    next
      case (Raise e t)
      with s2 show ?thesis by simp
    next
      case Fall2: (Fall t)
      with s2 have p2: "pending t" by simp
      note s3 = signal_stage_flow [OF p2, of w image_path]
      show ?thesis
        using s3 Fall Fall2
        by (cases "signal_stage w image_path t")
           (auto simp: extract_watermark_def extract_body_def pending_def)
    qed
  qed
qed

theorem extract_watermark_total_witness:
  "extract_watermark world_sidecar_text suspect = Some (found_sidecar_text, [])
   \<and> detected found_sidecar_text \<and> success found_sidecar_text
   \<and> 0 \<le> confidence found_sidecar_text \<and> confidence found_sidecar_text \<le> 1"
proof -
  have e: "extract_watermark world_sidecar_text suspect = Some (found_sidecar_text, [])"
    by code_simp
  have d: "detected found_sidecar_text"
    by (simp add: found_sidecar_text_def)
  from extract_watermark_total [of world_sidecar_text suspect] e d show ?thesis
    by auto
qed

subsection \<open>The payload encoder\<close>

lemma diagonal_loop:
  assumes "\<And>i m. step i m = (if start + i < n then upd2 m (start + i) (start + i) (f i) else m)"
  shows "length (for_range k step m) = length m
       \<and> (\<forall>r. length (for_range k step m ! r) = length (m ! r))
       \<and> (\<forall>r c. r < length m \<longrightarrow> c < length (m ! r) \<longrightarrow>
            for_range k step m ! r ! c =
              (if r = c \<and> start \<le> r \<and> r < start + k \<and> r < n then f (r - start) else m ! r ! c))"
proof (induction k)
  case 0
  then show ?case by auto
next
  case (Suc k)
  then show ?case
    by (auto simp: assms upd2_nth less_Suc_eq)
qed

lemma text_matrix_step:
  "(\<lambda>i watermark. let row = start + i
                   in if row < n then upd2 watermark row row (bs ! i) else watermark) i m
   = (if start + i < n then upd2 m (start + i) (start + i) (bs ! i) else m)"
  by (simp add: Let_def)

lemma text_matrix_cells:
  fixes bs :: "8 word list"
  shows "shape0 (text_matrix bs n) = n
       \<and> (\<forall>r<n. length (text_matrix bs n ! r) = n)
       \<and> (\<forall>r<n. \<forall>c<n. text_matrix bs n ! r ! c =
             (if r = c \<and> center_start (length bs) n \<le> r \<and> r - center_start (length bs) n < length bs
              then bs ! (r - center_start (length bs) n) else 0))"
proof -
  let ?start = "center_start (length bs) n"
  note loop = diagonal_loop [of "\<lambda>i watermark. let row = ?start + i
                   in if row < n then upd2 watermark row row (bs ! i) else watermark"
        ?start n "\<lambda>i. bs ! i" "min (length bs) n" "zeros n n", OF text_matrix_step]
  have tm: "text_matrix bs n = for_range (min (length bs) n)
           (\<lambda>i watermark. let row = ?start + i
              in if row < n then upd2 watermark row row (bs ! i) else watermark) (zeros n n)"
    by (simp add: text_matrix_def Let_def)
  have "shape0 (text_matrix bs n) = n"
    using loop by (simp add: tm shape0_def)
  moreover have "\<forall>r<n. length (text_matrix bs n ! r) = n"
    using loop by (simp add: tm)
  moreover have "\<forall>r<n. \<forall>c<n. text_matrix bs n ! r ! c =
             (if r = c \<and> ?start \<le> r \<and> r - ?start < length bs then bs ! (r - ?start) else 0)"
  proof (intro allI impI)
    fix r c assume rc: "r < n" "c < n"
    have "text_matrix bs n ! r ! c =
          (if r = c \<and> ?start \<le> r \<and> r < ?start + min (length bs) n \<and> r < n
           then bs ! (r - ?start) else zeros n n ! r ! c)"
      using loop rc by (simp add: tm)
    moreover have "(?start \<le> r \<and> r < ?start + min (length bs) n) \<longleftrightarrow>
                   (?start \<le> r \<and> r - ?start < length bs)"
      using rc by (auto simp: center_start_def)
    ultimately show "text_matrix bs n ! r ! c =
             (if r = c \<and> ?start \<le> r \<and> r - ?start < length bs then bs ! (r - ?start) else 0)"
      using rc by auto
  qed
  ultimately show ?thesis by blast
qed

text \<open>
  Claim C8. For every text that UTF-8 can encode, the text path returns the matrix of
  side \<open>n = min(max_size, 32)\<close> that holds byte \<open>i\<close> of the encoding at row and column
  \<open>center_start + i\<close>, where \<open>center_start\<close> is \<open>(n - byteLength) div 2\<close> when the
  byte sequence is shorter than \<open>n\<close> and 0 otherwise, for every \<open>i\<close> below both the
  byte length and \<open>n\<close> (bytes at index \<open>n\<close> and beyond are dropped), and zero in
  every other cell; the result does not depend on the world, so two encodes of the same
  text give the same matrix.
\<close>

theorem text_bytes_on_diagonal:
  fixes text_bytes :: "8 word list"
  assumes "encode_utf8 text = Inr text_bytes" and "0 \<le> max_size"
    and "n = nat (min max_size 32)"
  shows "(\<exists>md. prepare_watermark_data w (Some text) None max_size
                 = Inr (text_matrix text_bytes n, md, []))
       \<and> prepare_watermark_data w' (Some text) None max_size
           = prepare_watermark_data w (Some text) None max_size
       \<and> shape0 (text_matrix text_bytes n) = n
       \<and> (\<forall>r<n. length (text_matrix text_bytes n ! r) = n)
       \<and> (\<forall>i. i < length text_bytes \<and> i < n \<longrightarrow>
             center_start (length text_bytes) n + i < n
             \<and> text_matrix text_bytes n ! (center_start (length text_bytes) n + i)
                                       ! (center_start (length text_bytes) n + i)
                = text_bytes ! i)
       \<and> (\<forall>r<n. \<forall>c<n.
             r \<noteq> c \<or> r < center_start (length text_bytes) n
               \<or> length text_bytes \<le> r - center_start (length text_bytes) n \<longrightarrow>
             text_matrix text_bytes n ! r ! c = 0)"
proof -
  note cells = text_matrix_cells [of text_bytes n]
  have prep: "prepare_watermark_data w (Some text) None max_size
        = Inr (text_matrix text_bytes n,
               [(py ''watermark_type'', JStr (py ''text'')),
                (py ''watermark_text'', JStr text),
                (py ''text_length'', JNum (real (length text_bytes))),
                (py ''matrix_size'', JNum (real_of_int (min max_size 32)))],
               [])" for w
    using assms by (simp add: prepare_text_or_none_def Let_def)
  have placed: "center_start (length text_bytes) n + i < n
         \<and> text_matrix text_bytes n ! (center_start (length text_bytes) n + i)
                                   ! (center_start (length text_bytes) n + i) = text_bytes ! i"
    if "i < length text_bytes \<and> i < n" for i
  proof -
    from that have lt: "center_start (length text_bytes) n + i < n"
      by (auto simp: center_start_def)
    with cells that show ?thesis by simp
  qed
  have zero: "text_matrix text_bytes n ! r ! c = 0"
    if "r < n" "c < n" "r \<noteq> c \<or> r < center_start (length text_bytes) n
               \<or> length text_bytes \<le> r - center_start (length text_bytes) n" for r c
    using cells that by auto
  show ?thesis
    using prep cells placed zero by (intro conjI) (simp_all)
qed

theorem text_bytes_on_diagonal_witness:
  "encode_utf8 (py ''abc'') = Inr [97, 98, 99] \<and> (0 :: int) \<le> 2 \<and> (2 :: nat) = nat (min 2 32)
   \<and> text_matrix [97, 98, 99] 2 ! 0 ! 0 = 97
   \<and> text_matrix [97, 98, 99] 2 ! 1 ! 1 = 98
   \<and> text_matrix [97, 98, 99] 2 ! 0 ! 1 = 0
   \<and> encode_utf8 (py ''hi'') = Inr [104, 105] \<and> (0 :: int) \<le> 32 \<and> (32 :: nat) = nat (min 32 32)
   \<and> text_matrix [104, 105] 32 ! 15 ! 15 = 104
   \<and> text_matrix [104, 105] 32 ! 16 ! 16 = 105
   \<and> text_matrix [104, 105] 32 ! 14 ! 14 = 0"
proof -
  have a: "encode_utf8 (py ''abc'') = Inr [97, 98, 99]"
    by code_simp
  have b: "encode_utf8 (py ''hi'') = Inr [104, 105]"
    by code_simp
  have n2: "(0 :: int) \<le> 2" "(2 :: nat) = nat (min 2 32)"
    and n32: "(0 :: int) \<le> 32" "(32 :: nat) = nat (min 32 32)"
    by simp_all
  note t1 = text_bytes_on_diagonal [OF a n2]
  note t2 = text_bytes_on_diagonal [OF b n32]
  have p1: "\<forall>i. i < length [97, 98, 99 :: 8 word] \<and> i < 2 \<longrightarrow>
       center_start (length [97, 98, 99 :: 8 word]) 2 + i < 2
       \<and> text_matrix [97, 98, 99] 2 ! (center_start (length [97, 98, 99 :: 8 word]) 2 + i)
                                    ! (center_start (length [97, 98, 99 :: 8 word]) 2 + i)
         = [97, 98, 99 :: 8 word] ! i"
    and z1: "\<forall>r<2. \<forall>c<2. r \<noteq> c \<or> r < center_start (length [97, 98, 99 :: 8 word]) 2
               \<or> length [97, 98, 99 :: 8 word] \<le> r - center_start (length [97, 98, 99 :: 8 word]) 2 \<longrightarrow>
             text_matrix [97, 98, 99] 2 ! r ! c = 0"
    using t1 by blast+
  have p2: "\<forall>i. i < length [104, 105 :: 8 word] \<and> i < 32 \<longrightarrow>
       center_start (length [104, 105 :: 8 word]) 32 + i < 32
       \<and> text_matrix [104, 105] 32 ! (center_start (length [104, 105 :: 8 word]) 32 + i)
                                   ! (center_start (length [104, 105 :: 8 word]) 32 + i)
         = [104, 105 :: 8 word] ! i"
    and z2: "\<forall>r<32. \<forall>c<32. r \<noteq> c \<or> r < center_start (length [104, 105 :: 8 word]) 32
               \<or> length [104, 105 :: 8 word] \<le> r - center_start (length [104, 105 :: 8 word]) 32 \<longrightarrow>
             text_matrix [104, 105] 32 ! r ! c = 0"
    using t2 by blast+
  have c1: "center_start (length [97, 98, 99 :: 8 word]) 2 = 0"
    and c2: "center_start (length [104, 105 :: 8 word]) 32 = 15"
    by (simp_all add: center_start_def)
  from p1 [rule_format, of 0] p1 [rule_format, of 1] z1 [rule_format, of 0 1]
    p2 [rule_format, of 0] p2 [rule_format, of 1] z2 [rule_format, of 14 14] a b
  show ?thesis
    unfolding c1 c2 by simp
qed

subsection \<open>The metadata dictionary\<close>

lemma map_of_replace:
  "map_of (map (\<lambda>(k', v'). if k' = k then (k', v) else (k', v')) d) k'' =
     (if k'' = k then (case map_of d k of None \<Rightarrow> None | Some x \<Rightarrow> Some v) else map_of d k'')"
  by (induction d) (auto split: option.splits)

lemma dict_get_set:
  "dict_get (dict_set d k v) k' x = (if k' = k then v else dict_get d k' x)"
  by (auto simp: dict_get_def dict_set_def dict_has_def map_of_replace map_of_append map_add_def
           split: option.splits)

lemma dict_has_set:
  "dict_has (dict_set d k v) k' \<longleftrightarrow> k' = k \<or> dict_has d k'"
  by (auto simp: dict_set_def dict_has_def map_of_replace map_of_append map_add_def
           split: option.splits)

lemma py_keys_distinct:
  "py ''alpha'' \<noteq> py ''watermark_size''" "py ''alpha'' \<noteq> py ''timestamp''"
  "py ''watermark_type'' \<noteq> py ''watermark_text''"
  "py ''watermark_text'' \<noteq> py ''watermark_type''"
  "py ''watermark_text'' \<noteq> py ''watermark_image_url''"
  "py ''watermark_text'' \<noteq> py ''backup_image_url''"
  "py ''watermark_text'' \<noteq> py ''matrix_size''"
  by (simp_all add: py_def)

lemma persisted_alpha:
  assumes "persist_metadata w s = Inr e"
  shows "dict_get (metadata_written e) (py ''alpha'') JNull = JNum 100"
  using assms
  by (auto simp: persist_metadata_def Let_def dict_update_def dict_get_set py_keys_distinct alpha_def
           split: if_splits)

lemma prepare_image_kind:
  assumes "prepare_image w wm_img max_size = Inr (watermark, md, files)"
  shows "type_of md = JStr (py ''image'') \<and> \<not> dict_has md (py ''watermark_text'')"
  using assms
  by (auto simp: prepare_image_def Let_def type_of_def dict_get_def dict_has_def py_keys_distinct
           split: if_splits)

lemma prepare_image_returns:
  assumes "store_copies_ok w" and "0 < max_size"
  shows "\<exists>watermark md files. prepare_image w wm_img max_size = Inr (watermark, md, files)"
  using assms by (simp add: prepare_image_def Let_def)

text \<open>
  Claim C7. When the reference image exists and decodes, the encoder returns what the
  image path returns, whatever the text: every payload it returns has type image and no
  text, and it returns one whenever the display copies can be written. When the image
  path is empty, names no file or names a file that does not decode, the encoder returns
  what the text branch returns: the text payload (type text, the text's matrix) when a
  text is supplied, the 1 by 1 zero matrix of type none when it is not.
\<close>

theorem image_payload_priority:
  "(watermark_image_path \<noteq> [] \<and> file_exists w watermark_image_path
      \<and> imread_unchanged w watermark_image_path = Some wm_img \<longrightarrow>
      prepare_watermark_data w wm_text (Some watermark_image_path) max_size
        = prepare_image w wm_img max_size
      \<and> (prepare_watermark_data w wm_text (Some watermark_image_path) max_size
           = Inr (watermark, md, files) \<longrightarrow>
         type_of md = JStr (py ''image'') \<and> \<not> dict_has md (py ''watermark_text''))
      \<and> (store_copies_ok w \<and> 0 < max_size \<longrightarrow>
         (\<exists>watermark md files.
            prepare_watermark_data w wm_text (Some watermark_image_path) max_size
              = Inr (watermark, md, files))))
   \<and> (watermark_image_path = [] \<or> \<not> file_exists w watermark_image_path
      \<or> imread_unchanged w watermark_image_path = None \<longrightarrow>
      prepare_watermark_data w wm_text (Some watermark_image_path) max_size
        = prepare_text_or_none wm_text max_size)
   \<and> (encode_utf8 payload_text = Inr text_bytes \<and> 0 \<le> max_size \<longrightarrow>
      (\<exists>md. prepare_text_or_none (Some payload_text) max_size
               = Inr (text_matrix text_bytes (nat (min max_size 32)), md, [])
            \<and> type_of md = JStr (py ''text'')
            \<and> dict_get md (py ''watermark_text'') JNull = JStr payload_text))
   \<and> prepare_text_or_none None max_size
       = Inr (zeros 1 1, [(py ''watermark_type'', JStr (py ''none''))], [])"
proof (intro conjI impI)
  assume a: "watermark_image_path \<noteq> [] \<and> file_exists w watermark_image_path
      \<and> imread_unchanged w watermark_image_path = Some wm_img"
  then show eq: "prepare_watermark_data w wm_text (Some watermark_image_path) max_size
        = prepare_image w wm_img max_size"
    by simp
  {
    assume "prepare_watermark_data w wm_text (Some watermark_image_path) max_size
           = Inr (watermark, md, files)"
    with eq have "prepare_image w wm_img max_size = Inr (watermark, md, files)" by simp
    from prepare_image_kind [OF this]
    show "type_of md = JStr (py ''image'')" and "\<not> dict_has md (py ''watermark_text'')"
      by simp_all
  }
  {
    assume "store_copies_ok w \<and> 0 < max_size"
    then show "\<exists>watermark md files.
            prepare_watermark_data w wm_text (Some watermark_image_path) max_size
              = Inr (watermark, md, files)"
      unfolding eq using prepare_image_returns [of w max_size wm_img] by simp
  }
next
  assume "watermark_image_path = [] \<or> \<not> file_exists w watermark_image_path
      \<or> imread_unchanged w watermark_image_path = None"
  then show "prepare_watermark_data w wm_text (Some watermark_image_path) max_size
        = prepare_text_or_none wm_text max_size"
    by auto
next
  assume "encode_utf8 payload_text = Inr text_bytes \<and> 0 \<le> max_size"
  then show "\<exists>md. prepare_text_or_none (Some payload_text) max_size
               = Inr (text_matrix text_bytes (nat (min max_size 32)), md, [])
            \<and> type_of md = JStr (py ''text'')
            \<and> dict_get md (py ''watermark_text'') JNull = JStr payload_text"
    by (auto simp: prepare_text_or_none_def Let_def type_of_def dict_get_def py_keys_distinct)
next
  show "prepare_text_or_none None max_size
       = Inr (zeros 1 1, [(py ''watermark_type'', JStr (py ''none''))], [])"
    by (simp add: prepare_text_or_none_def)
qed

theorem image_payload_priority_witness:
  "reference_path \<noteq> [] \<and> file_exists world_embed_reference reference_path
   \<and> imread_unchanged world_embed_reference reference_path = Some logo
   \<and> prepare_watermark_data world_embed_reference (Some (py ''hi'')) (Some reference_path) 32
       = Inr logo_prepared
   \<and> type_of logo_metadata = JStr (py ''image'')
   \<and> \<not> dict_has logo_metadata (py ''watermark_text'')
   \<and> imread_unchanged world_embed_broken_reference reference_path = None
   \<and> prepare_watermark_data world_embed_broken_reference (Some (py ''hi'')) (Some reference_path) 32
       = prepare_text_or_none (Some (py ''hi'')) 32
   \<and> encode_utf8 (py ''hi'') = Inr [104, 105]
   \<and> prepare_text_or_none (Some (py ''hi'')) 32
       = Inr (text_matrix [104, 105] 32, text_metadata_hi, [])
   \<and> type_of text_metadata_hi = JStr (py ''text'')"
proof -
  have a: "reference_path \<noteq> [] \<and> file_exists world_embed_reference reference_path
     \<and> imread_unchanged world_embed_reference reference_path = Some logo"
    by code_simp
  have p: "prepare_watermark_data world_embed_reference (Some (py ''hi'')) (Some reference_path) 32
       = Inr (nearest [[255, 0], [0, 255]] 32 32, logo_metadata,
              [py ''/srv/static/original_watermark_0a0a.png'',
               py ''/srv/processed/backup_watermark_0a0a.png''])"
    by code_simp
  have b: "reference_path = [] \<or> \<not> file_exists world_embed_broken_reference reference_path
     \<or> imread_unchanged world_embed_broken_reference reference_path = None"
    by code_simp
  have c: "encode_utf8 (py ''hi'') = Inr [104, 105] \<and> (0 :: int) \<le> 32"
    by code_simp
  have q: "prepare_text_or_none (Some (py ''hi'')) 32
       = Inr (text_matrix [104, 105] 32, text_metadata_hi, [])"
    by code_simp
  note t = image_payload_priority
    [where w = world_embed_reference and watermark_image_path = reference_path
       and wm_img = logo and wm_text = "Some (py ''hi'')" and max_size = 32,
     THEN conjunct1, rule_format, OF a, THEN conjunct2, THEN conjunct1, rule_format, OF p]
  note f = image_payload_priority
    [where w = world_embed_broken_reference and watermark_image_path = reference_path
       and wm_text = "Some (py ''hi'')" and max_size = 32,
     THEN conjunct2, THEN conjunct1, rule_format, OF b]
  note x = image_payload_priority
    [where payload_text = "py ''hi''" and text_bytes = "[104, 105]" and max_size = 32,
     THEN conjunct2, THEN conjunct2, THEN conjunct1, rule_format, OF c]
  have "imread_unchanged world_embed_broken_reference reference_path = None"
    by code_simp
  moreover from x q have "type_of text_metadata_hi = JStr (py ''text'')"
    by auto
  ultimately show ?thesis
    using a p t f c q by (simp add: logo_prepared_def)
qed

subsection \<open>The embedding loop\<close>

lemma for_range_e_0 [simp]: "for_range_e 0 body s = Inr s"
  by (simp add: for_range_e_def)

lemma for_range_e_Suc [simp]:
  "for_range_e (Suc n) body s =
     (case for_range_e n body s of Inl e \<Rightarrow> Inl e | Inr s' \<Rightarrow> body n s')"
  by (simp add: for_range_e_def)

lemma for_range_e_pure:
  assumes "\<And>i s. i < n \<Longrightarrow> I s \<Longrightarrow> body i s = Inr (pure i s) \<and> I (pure i s)" and "I s"
  shows "for_range_e n body s = Inr (for_range n pure s) \<and> I (for_range n pure s)"
  using assms
proof (induction n)
  case 0
  then show ?case by simp
next
  case (Suc n)
  then have "for_range_e n body s = Inr (for_range n pure s) \<and> I (for_range n pure s)"
    by simp
  with Suc.prems(1) [of n "for_range n pure s"] show ?case
    by simp
qed

lemma shape_upd2 [simp]:
  "shape0 (upd2 m i j v) = shape0 m" "shape1 (upd2 m i j v) = shape1 m"
  by (cases m; cases i; simp add: shape0_def shape1_def upd2_def)+

lemma rect_iff: "rect m \<longleftrightarrow> (\<forall>r<length m. length (m ! r) = shape1 m)"
  by (simp add: rect_def list_all_length)

lemma rect_upd2 [simp]: "rect (upd2 m i j v) = rect m"
  by (simp add: rect_iff)

lemma np_index_nat [simp]: "k < n \<Longrightarrow> np_index n (int k) = Some k"
  by (simp add: np_index_def)


lemma embed_cell_in_window:
  assumes "i < h" "j < w" "ho + h \<le> shape0 ll" "wo + w \<le> shape1 ll"
  shows "embed_cell wr (int ho) (int wo) (min (int (shape0 ll)) (int ho + int h))
           (min (int (shape1 ll)) (int wo + int w)) i j ll
         = Inr (if wr ! i ! j \<noteq> 0
                then upd2 ll (ho + i) (wo + j)
                       ((\<lambda>i j v. v + min (effective_alpha * real (unat (wr ! i ! j))) (v * 0.2))
                          i j (ll ! (ho + i) ! (wo + j)))
                else ll)"
proof -
  have idx: "np_index (shape0 ll) (int ho + int i) = Some (ho + i)"
    "np_index (shape1 ll) (int wo + int j) = Some (wo + j)"
    using assms np_index_nat [of "ho + i" "shape0 ll"] np_index_nat [of "wo + j" "shape1 ll"]
    by simp_all
  have guard: "int ho + int i < min (int (shape0 ll)) (int ho + int h)"
    "int wo + int j < min (int (shape1 ll)) (int wo + int w)"
    using assms by simp_all
  show ?thesis
    unfolding embed_cell_def using guard by (simp add: idx Let_def word_gt_0)
qed

lemma embed_loop_pure:
  assumes fit: "shape0 wr \<le> shape0 ll" "shape1 wr \<le> shape1 ll"
  defines "ho \<equiv> (shape0 ll - shape0 wr) div 2" and "wo \<equiv> (shape1 ll - shape1 wr) div 2"
  defines "step \<equiv> (\<lambda>i j m. if wr ! i ! j \<noteq> 0
                then upd2 m (ho + i) (wo + j)
                       ((\<lambda>i j v. v + min (effective_alpha * real (unat (wr ! i ! j))) (v * 0.2))
                          i j (m ! (ho + i) ! (wo + j)))
                else m)"
  shows "embed_loop wr ll = Inr (for_range (shape0 wr) (\<lambda>i. for_range (shape1 wr) (step i)) ll)"
proof -
  let ?H = "shape0 ll" and ?W = "shape1 ll" and ?h = "shape0 wr" and ?w = "shape1 wr"
  let ?I = "\<lambda>m :: real ndarray. shape0 m = ?H \<and> shape1 m = ?W"
  have off: "(int ?H - int ?h) div 2 = int ho" "(int ?W - int ?w) div 2 = int wo"
    using fit by (simp_all add: ho_def wo_def of_nat_diff zdiv_int)
  have room: "ho + ?h \<le> ?H" "wo + ?w \<le> ?W"
    using fit by (simp_all add: ho_def wo_def)
  have cell: "embed_cell wr (int ho) (int wo) (min (int ?H) (int ho + int ?h))
                (min (int ?W) (int wo + int ?w)) i j m = Inr (step i j m) \<and> ?I (step i j m)"
    if "i < ?h" "j < ?w" "?I m" for i j m
    using embed_cell_in_window [of i ?h j ?w ho m wo wr] that room
    by (simp add: step_def)
  have row: "for_range_e ?w (embed_cell wr (int ho) (int wo) (min (int ?H) (int ho + int ?h))
                (min (int ?W) (int wo + int ?w)) i) m
             = Inr (for_range ?w (step i) m) \<and> ?I (for_range ?w (step i) m)"
    if "i < ?h" "?I m" for i m
    by (rule for_range_e_pure [where I = ?I]) (use that cell in auto)
  have "for_range_e ?h (\<lambda>i. for_range_e ?w (embed_cell wr (int ho) (int wo)
                (min (int ?H) (int ho + int ?h)) (min (int ?W) (int wo + int ?w)) i)) ll
        = Inr (for_range ?h (\<lambda>i. for_range ?w (step i)) ll)
        \<and> ?I (for_range ?h (\<lambda>i. for_range ?w (step i)) ll)"
    by (rule for_range_e_pure [where I = ?I]) (use row in auto)
  then show ?thesis
    by (simp add: embed_loop_def Let_def off)
qed


lemma effective_alpha_value: "effective_alpha = 50"
  by (simp add: effective_alpha_def alpha_def)

lemma add_value_nonneg:
  fixes x :: "8 word"
  assumes "0 \<le> v"
  shows "0 \<le> min (effective_alpha * real (unat x)) (v * 0.2)"
proof -
  have a: "(0 :: real) \<le> 50 * real (unat x)"
    by (rule mult_nonneg_nonneg) (simp, rule of_nat_0_le_iff)
  have b: "0 \<le> v * 0.2"
    using assms by simp
  show ?thesis
    unfolding effective_alpha_value using a b by (rule min.boundedI)
qed

text \<open>
  Claim C1, as the code has it. For a resized payload matrix that fits into the
  sub-band, the embedding loop raises no exception, keeps the shape, and for every cell
  of the matrix with a nonzero value adds \<open>min(50 * cellValue, 0.2 * coefficient)\<close> to
  the coefficient at the centred position, 50 being half the engine strength; the
  coefficients under zero-valued cells and outside the window are untouched; and no
  coefficient that is nonnegative, as those of the Haar approximation band of pixel data
  are, is lowered.
\<close>

theorem embed_adds_capped_value:
  assumes "rect ll_band" and "rect watermark_resized"
    and "shape0 watermark_resized \<le> shape0 ll_band"
    and "shape1 watermark_resized \<le> shape1 ll_band"
    and "h_off = (shape0 ll_band - shape0 watermark_resized) div 2"
    and "w_off = (shape1 ll_band - shape1 watermark_resized) div 2"
  shows "\<exists>marked. embed_loop watermark_resized ll_band = Inr marked
      \<and> shape0 marked = shape0 ll_band \<and> shape1 marked = shape1 ll_band \<and> rect marked
      \<and> (\<forall>i < shape0 watermark_resized. \<forall>j < shape1 watermark_resized.
            h_off + i < shape0 ll_band \<and> w_off + j < shape1 ll_band
            \<and> marked ! (h_off + i) ! (w_off + j) =
                (if watermark_resized ! i ! j \<noteq> 0
                 then ll_band ! (h_off + i) ! (w_off + j)
                      + min (50 * real (unat (watermark_resized ! i ! j)))
                            (ll_band ! (h_off + i) ! (w_off + j) * 0.2)
                 else ll_band ! (h_off + i) ! (w_off + j)))
      \<and> (\<forall>r < shape0 ll_band. \<forall>c < shape1 ll_band.
            \<not> (h_off \<le> r \<and> r < h_off + shape0 watermark_resized
               \<and> w_off \<le> c \<and> c < w_off + shape1 watermark_resized) \<longrightarrow>
            marked ! r ! c = ll_band ! r ! c)
      \<and> (\<forall>r < shape0 ll_band. \<forall>c < shape1 ll_band.
            0 \<le> ll_band ! r ! c \<longrightarrow> ll_band ! r ! c \<le> marked ! r ! c)"
proof -
  let ?wr = watermark_resized
  let ?g = "\<lambda>i j v. v + min (effective_alpha * real (unat (?wr ! i ! j))) (v * 0.2)"
  let ?step = "\<lambda>i j m. if ?wr ! i ! j \<noteq> 0
                then upd2 m (h_off + i) (w_off + j) (?g i j (m ! (h_off + i) ! (w_off + j)))
                else m"
  let ?marked = "for_range (shape0 ?wr) (\<lambda>i. for_range (shape1 ?wr) (?step i)) ll_band"
  have run: "embed_loop ?wr ll_band = Inr ?marked"
    unfolding assms(5,6) by (rule embed_loop_pure [OF assms(3,4)])
  note grid = grid_loop [of ?step "\<lambda>i j. ?wr ! i ! j \<noteq> 0" h_off w_off ?g
      "shape0 ?wr" "shape1 ?wr" ll_band, OF refl]
  have len: "length ?marked = length ll_band"
    and rows: "\<And>r. length (?marked ! r) = length (ll_band ! r)"
    using grid by simp_all
  have rowlen: "length (ll_band ! r) = shape1 ll_band" if "r < shape0 ll_band" for r
    using assms(1) that by (simp add: rect_iff shape0_def)
  have cell: "?marked ! r ! c =
              (if h_off \<le> r \<and> r < h_off + shape0 ?wr \<and> w_off \<le> c \<and> c < w_off + shape1 ?wr
                  \<and> ?wr ! (r - h_off) ! (c - w_off) \<noteq> 0
               then ?g (r - h_off) (c - w_off) (ll_band ! r ! c) else ll_band ! r ! c)"
    if "r < shape0 ll_band" "c < shape1 ll_band" for r c
    using grid that rowlen [OF that(1)] by (simp add: shape0_def)
  have room: "h_off + shape0 ?wr \<le> shape0 ll_band" "w_off + shape1 ?wr \<le> shape1 ll_band"
    using assms(3,4) by (simp_all add: assms(5,6))
  have s0: "shape0 ?marked = shape0 ll_band"
    using len by (simp add: shape0_def)
  have s1: "shape1 ?marked = shape1 ll_band"
  proof (cases ll_band)
    case Nil
    with len have "?marked = []" by simp
    with Nil show ?thesis by (simp add: shape1_def)
  next
    case (Cons row rest)
    with len obtain row' rest' where m: "?marked = row' # rest'"
      by (cases ?marked) auto
    from rows [of 0] m Cons show ?thesis
      by (simp add: shape1_def)
  qed
  have rc: "rect ?marked"
    using assms(1) len rows s1 by (simp add: rect_iff)
  have inside: "h_off + i < shape0 ll_band \<and> w_off + j < shape1 ll_band
            \<and> ?marked ! (h_off + i) ! (w_off + j) =
                (if ?wr ! i ! j \<noteq> 0
                 then ll_band ! (h_off + i) ! (w_off + j)
                      + min (50 * real (unat (?wr ! i ! j)))
                            (ll_band ! (h_off + i) ! (w_off + j) * 0.2)
                 else ll_band ! (h_off + i) ! (w_off + j))"
    if "i < shape0 ?wr" "j < shape1 ?wr" for i j
  proof -
    from that room have r: "h_off + i < shape0 ll_band" and c: "w_off + j < shape1 ll_band"
      by simp_all
    from cell [OF r c] that r c show ?thesis
      by (simp add: effective_alpha_value)
  qed
  have outside: "?marked ! r ! c = ll_band ! r ! c"
    if "r < shape0 ll_band" "c < shape1 ll_band"
       "\<not> (h_off \<le> r \<and> r < h_off + shape0 ?wr \<and> w_off \<le> c \<and> c < w_off + shape1 ?wr)" for r c
    using cell [OF that(1,2)] that(3) by auto
  have raised: "ll_band ! r ! c \<le> ?marked ! r ! c"
    if "r < shape0 ll_band" "c < shape1 ll_band" "0 \<le> ll_band ! r ! c" for r c
  proof -
    have "0 \<le> ?g (r - h_off) (c - w_off) (ll_band ! r ! c) - ll_band ! r ! c"
      using add_value_nonneg [OF that(3), of "?wr ! (r - h_off) ! (c - w_off)"] by simp
    then show ?thesis
      unfolding cell [OF that(1,2)] by (simp split: if_splits)
  qed
  show ?thesis
    using run s0 s1 rc inside outside raised
    by (intro exI [of _ ?marked] conjI) simp_all
qed

theorem embed_adds_capped_value_witness:
  "rect ll0 \<and> rect wr0 \<and> shape0 wr0 \<le> shape0 ll0 \<and> shape1 wr0 \<le> shape1 ll0
   \<and> embed_loop wr0 ll0 = Inr [[550, 40], [7, 8]]
   \<and> ([[550, 40], [7, 8]] :: real ndarray) ! 0 ! 0 = 500 + min (50 * real (unat (1 :: 8 word))) (500 * 0.2)
   \<and> ([[550, 40], [7, 8]] :: real ndarray) ! 0 ! 1 = 40
   \<and> ([[550, 40], [7, 8]] :: real ndarray) ! 1 ! 0 = 7"
proof -
  have h: "rect ll0" "rect wr0" "shape0 wr0 \<le> shape0 ll0" "shape1 wr0 \<le> shape1 ll0"
    by code_simp+
  have o: "(0 :: nat) = (shape0 ll0 - shape0 wr0) div 2" "(0 :: nat) = (shape1 ll0 - shape1 wr0) div 2"
    by code_simp+
  have run: "embed_loop wr0 ll0 = Inr [[550, 40], [7, 8]]"
    by code_simp
  from embed_adds_capped_value [OF h o] obtain marked where
    m: "embed_loop wr0 ll0 = Inr marked"
    and inside: "\<forall>i < shape0 wr0. \<forall>j < shape1 wr0.
            marked ! (0 + i) ! (0 + j) =
                (if wr0 ! i ! j \<noteq> 0
                 then ll0 ! (0 + i) ! (0 + j)
                      + min (50 * real (unat (wr0 ! i ! j))) (ll0 ! (0 + i) ! (0 + j) * 0.2)
                 else ll0 ! (0 + i) ! (0 + j))"
    and outside: "\<forall>r < shape0 ll0. \<forall>c < shape1 ll0.
            \<not> (0 \<le> r \<and> r < 0 + shape0 wr0 \<and> 0 \<le> c \<and> c < 0 + shape1 wr0) \<longrightarrow>
            marked ! r ! c = ll0 ! r ! c"
    by blast
  from m run have eq: "marked = [[550, 40], [7, 8]]" by simp
  have s: "shape0 wr0 = 1" "shape1 wr0 = 2" "shape0 ll0 = 2" "shape1 ll0 = 2"
    by (simp_all add: wr0_def ll0_def shape0_def shape1_def)
  from inside [rule_format, of 0 0] inside [rule_format, of 0 1] outside [rule_format, of 1 0]
  have "marked ! 0 ! 0 = 500 + min (50 * real (unat (1 :: 8 word))) (500 * 0.2)"
    "marked ! 0 ! 1 = 40" "marked ! 1 ! 0 = 7"
    by (simp_all add: s) (simp_all add: wr0_def ll0_def)
  with h run show ?thesis
    unfolding eq by simp
qed

text \<open>
  Claim C1 as stated fails: with cell value 1 on the coefficient 500 the loop adds 50,
  not 100; with cell value 255 on the coefficient 0 it adds nothing.
\<close>

theorem embed_adds_capped_value_counterexample:
  "embed_loop [[1]] [[500]] = Inr [[550]]
   \<and> (550 :: real) \<noteq> 500 + real alpha * real (unat (1 :: 8 word))
   \<and> embed_loop [[255]] [[0]] = Inr [[0]]
   \<and> (0 :: real) \<noteq> 0 + real alpha * real (unat (255 :: 8 word))"
  by code_simp

subsection \<open>\<open>embed_watermark\<close>\<close>

lemma prepare_image_frame [simp]:
  "prepare_image (w\<lparr>write_trailer_ok := t\<rparr>) = prepare_image w"
  "prepare_image (w\<lparr>write_sidecar_ok := t\<rparr>) = prepare_image w"
  by (auto simp add: prepare_image_def fun_eq_iff Let_def)

lemma prepare_frame [simp]:
  "prepare_watermark_data (w\<lparr>write_trailer_ok := t\<rparr>) a p m = prepare_watermark_data w a p m"
  "prepare_watermark_data (w\<lparr>write_sidecar_ok := t\<rparr>) a p m = prepare_watermark_data w a p m"
  by (cases p; simp split: option.splits)+

lemma embed_image_frame [simp]:
  "embed_image (w\<lparr>write_trailer_ok := t\<rparr>) = embed_image w"
  "embed_image (w\<lparr>write_sidecar_ok := t\<rparr>) = embed_image w"
  by (simp_all add: embed_image_def fun_eq_iff Let_def
        split: option.splits sum.splits prod.splits)

lemma embed_image_hi:
  "embed_image world_embed carrier_path (Some (py ''hi'')) None None = Inr saved_hi"
  by code_simp

lemma persist_hi:
  "persist_metadata world_embed saved_hi = Inr embedded_hi"
  "persist_metadata (world_embed\<lparr>write_trailer_ok := False\<rparr>) saved_hi
     = Inr (embedded_hi\<lparr>trailer_appended := False\<rparr>)"
  "persist_metadata (world_embed\<lparr>write_sidecar_ok := False\<rparr>) saved_hi = Inl OSError"
  by code_simp+

lemma embed_watermark_hi:
  "embed_watermark world_embed carrier_path (Some (py ''hi'')) None a None = Inr embedded_hi"
  "embed_watermark (world_embed\<lparr>write_trailer_ok := False\<rparr>) carrier_path (Some (py ''hi''))
     None a None = Inr (embedded_hi\<lparr>trailer_appended := False\<rparr>)"
  "embed_watermark (world_embed\<lparr>write_sidecar_ok := False\<rparr>) carrier_path (Some (py ''hi''))
     None a None = Inl OSError"
  by (simp_all add: embed_watermark_def embed_image_hi persist_hi)

text \<open>
  Claim C5, as the code has it. Once the watermarked image has been computed and passed
  to \<open>cv2.imwrite\<close>: if the sidecar file is written, the call returns the output
  path whether or not the trailer can be appended; if writing the sidecar file fails, the
  call raises. A failure to write the display copy of a reference image or its backup
  happens earlier, in the encoder, and makes the call raise as well.
\<close>

theorem trailer_write_is_best_effort:
  "(embed_image w image_path wm_text watermark_image_path output_path = Inr s \<longrightarrow>
      (write_sidecar_ok w \<longrightarrow>
         (\<exists>e. embed_watermark w image_path wm_text watermark_image_path alpha_arg output_path = Inr e
             \<and> returned_path e = s_output_path s \<and> trailer_appended e = write_trailer_ok w)
         \<and> (\<exists>e. embed_watermark (w\<lparr>write_trailer_ok := False\<rparr>) image_path wm_text
                    watermark_image_path alpha_arg output_path = Inr e
               \<and> returned_path e = s_output_path s \<and> \<not> trailer_appended e))
      \<and> (\<not> write_sidecar_ok w \<longrightarrow>
         embed_watermark w image_path wm_text watermark_image_path alpha_arg output_path
           = Inl OSError))
   \<and> (imread w image_path = Some img \<and> watermark_image_path = Some reference
      \<and> reference \<noteq> [] \<and> file_exists w reference \<and> imread_unchanged w reference = Some wm_img
      \<and> \<not> store_copies_ok w \<longrightarrow>
      embed_watermark w image_path wm_text watermark_image_path alpha_arg output_path
        = Inl OSError)"
proof (intro conjI impI)
  assume s: "embed_image w image_path wm_text watermark_image_path output_path = Inr s"
  {
    assume ok: "write_sidecar_ok w"
    show "\<exists>e. embed_watermark w image_path wm_text watermark_image_path alpha_arg output_path = Inr e
             \<and> returned_path e = s_output_path s \<and> trailer_appended e = write_trailer_ok w"
      using s ok by (simp add: embed_watermark_def persist_metadata_def Let_def)
    show "\<exists>e. embed_watermark (w\<lparr>write_trailer_ok := False\<rparr>) image_path wm_text
                    watermark_image_path alpha_arg output_path = Inr e
               \<and> returned_path e = s_output_path s \<and> \<not> trailer_appended e"
      using s ok by (simp add: embed_watermark_def persist_metadata_def Let_def)
  }
  {
    assume "\<not> write_sidecar_ok w"
    with s show "embed_watermark w image_path wm_text watermark_image_path alpha_arg output_path
           = Inl OSError"
      by (simp add: embed_watermark_def persist_metadata_def Let_def)
  }
next
  assume "imread w image_path = Some img \<and> watermark_image_path = Some reference
      \<and> reference \<noteq> [] \<and> file_exists w reference \<and> imread_unchanged w reference = Some wm_img
      \<and> \<not> store_copies_ok w"
  then show "embed_watermark w image_path wm_text watermark_image_path alpha_arg output_path
        = Inl OSError"
    by (simp add: embed_watermark_def embed_image_def prepare_image_def Let_def)
qed

text \<open>
  Claim C5 as stated fails: the image is computed and saved, the sidecar file cannot be
  written, and the call raises instead of returning the output path.
\<close>

theorem sidecar_write_counterexample:
  "embed_image (world_embed\<lparr>write_sidecar_ok := False\<rparr>) carrier_path (Some (py ''hi'')) None None
     = Inr saved_hi
   \<and> s_imwrite saved_hi
   \<and> \<not> write_sidecar_ok (world_embed\<lparr>write_sidecar_ok := False\<rparr>)
   \<and> embed_watermark (world_embed\<lparr>write_sidecar_ok := False\<rparr>) carrier_path (Some (py ''hi''))
        None 0.1 None = Inl OSError"
  by (simp add: embed_image_hi embed_watermark_hi saved_hi_def)

theorem trailer_write_is_best_effort_witness:
  "embed_image world_embed carrier_path (Some (py ''hi'')) None None = Inr saved_hi
   \<and> write_sidecar_ok world_embed
   \<and> embed_watermark world_embed carrier_path (Some (py ''hi'')) None 0.1 None = Inr embedded_hi
   \<and> returned_path embedded_hi = s_output_path saved_hi
   \<and> embed_watermark (world_embed\<lparr>write_trailer_ok := False\<rparr>) carrier_path (Some (py ''hi''))
        None 0.1 None = Inr (embedded_hi\<lparr>trailer_appended := False\<rparr>)
   \<and> embed_image (world_embed\<lparr>write_sidecar_ok := False\<rparr>) carrier_path (Some (py ''hi''))
        None None = Inr saved_hi
   \<and> embed_watermark (world_embed\<lparr>write_sidecar_ok := False\<rparr>) carrier_path (Some (py ''hi''))
        None 0.1 None = Inl OSError
   \<and> imread_unchanged world_embed_reference reference_path = Some logo
   \<and> embed_watermark (world_embed_reference\<lparr>store_copies_ok := False\<rparr>) carrier_path
        (Some (py ''hi'')) (Some reference_path) 0.1 None = Inl OSError"
proof -
  have a: "embed_image world_embed carrier_path (Some (py ''hi'')) None None = Inr saved_hi"
    by (rule embed_image_hi)
  have a': "embed_image (world_embed\<lparr>write_sidecar_ok := False\<rparr>) carrier_path
              (Some (py ''hi'')) None None = Inr saved_hi"
    by (simp add: embed_image_hi)
  have ok: "write_sidecar_ok world_embed"
    and no: "\<not> write_sidecar_ok (world_embed\<lparr>write_sidecar_ok := False\<rparr>)"
    by (simp_all add: world_embed_def world_empty_def)
  have e1: "embed_watermark world_embed carrier_path (Some (py ''hi'')) None 0.1 None
            = Inr embedded_hi"
    by (rule embed_watermark_hi)
  have e2: "embed_watermark (world_embed\<lparr>write_trailer_ok := False\<rparr>) carrier_path
              (Some (py ''hi'')) None 0.1 None = Inr (embedded_hi\<lparr>trailer_appended := False\<rparr>)"
    by (rule embed_watermark_hi)
  have r: "imread (world_embed_reference\<lparr>store_copies_ok := False\<rparr>) carrier_path = Some grey4
     \<and> Some reference_path = Some reference_path
     \<and> reference_path \<noteq> []
     \<and> file_exists (world_embed_reference\<lparr>store_copies_ok := False\<rparr>) reference_path
     \<and> imread_unchanged (world_embed_reference\<lparr>store_copies_ok := False\<rparr>) reference_path
         = Some logo
     \<and> \<not> store_copies_ok (world_embed_reference\<lparr>store_copies_ok := False\<rparr>)"
    by code_simp
  note t = trailer_write_is_best_effort
    [where w = world_embed and image_path = carrier_path and wm_text = "Some (py ''hi'')"
       and watermark_image_path = None and output_path = None and s = saved_hi
       and alpha_arg = "0.1",
     THEN conjunct1, rule_format, OF a, THEN conjunct1, rule_format, OF ok]
  note f = trailer_write_is_best_effort
    [where w = "world_embed\<lparr>write_sidecar_ok := False\<rparr>" and image_path = carrier_path
       and wm_text = "Some (py ''hi'')" and watermark_image_path = None and output_path = None
       and s = saved_hi and alpha_arg = "0.1",
     THEN conjunct1, rule_format, OF a', THEN conjunct2, rule_format, OF no]
  note c = trailer_write_is_best_effort
    [where w = "world_embed_reference\<lparr>store_copies_ok := False\<rparr>" and image_path = carrier_path
       and wm_text = "Some (py ''hi'')" and watermark_image_path = "Some reference_path"
       and reference = reference_path and img = grey4 and wm_img = logo
       and output_path = None and alpha_arg = "0.1",
     THEN conjunct2, rule_format, OF r]
  have l: "imread_unchanged world_embed_reference reference_path = Some logo"
    by code_simp
  from t e1 have "returned_path embedded_hi = s_output_path saved_hi"
    by auto
  with a a' ok e1 e2 f c l show ?thesis
    by simp
qed

text \<open>
  Claim C10. The \<open>alpha\<close> argument of \<open>embed_watermark\<close> is ignored: two calls that
  differ only in it behave alike, so they give the same watermarked image; and the
  metadata a call writes records the engine strength 100 under \<open>alpha\<close>.
\<close>

theorem alpha_argument_ignored:
  "embed_watermark w image_path wm_text watermark_image_path alpha_a output_path
     = embed_watermark w image_path wm_text watermark_image_path alpha_b output_path
   \<and> (embed_watermark w image_path wm_text watermark_image_path alpha_a output_path = Inr e \<longrightarrow>
        dict_get (metadata_written e) (py ''alpha'') JNull = JNum 100
        \<and> (\<exists>e'. embed_watermark w image_path wm_text watermark_image_path alpha_b output_path = Inr e'
               \<and> image e' = image e))"
proof -
  have same: "embed_watermark w image_path wm_text watermark_image_path alpha_a output_path
     = embed_watermark w image_path wm_text watermark_image_path alpha_b output_path"
    by (simp add: embed_watermark_def)
  moreover have "dict_get (metadata_written e) (py ''alpha'') JNull = JNum 100"
    if "embed_watermark w image_path wm_text watermark_image_path alpha_a output_path = Inr e"
    using that persisted_alpha by (auto simp: embed_watermark_def split: sum.splits)
  ultimately show ?thesis by auto
qed

theorem alpha_argument_ignored_witness:
  "embed_watermark world_embed carrier_path (Some (py ''hi'')) None 0.1 None = Inr embedded_hi
   \<and> embed_watermark world_embed carrier_path (Some (py ''hi'')) None 0.9 None = Inr embedded_hi
   \<and> dict_get (metadata_written embedded_hi) (py ''alpha'') JNull = JNum 100"
proof -
  have e: "embed_watermark world_embed carrier_path (Some (py ''hi'')) None 0.1 None
           = Inr embedded_hi"
    by (rule embed_watermark_hi)
  note t = alpha_argument_ignored
    [where w = world_embed and image_path = carrier_path and wm_text = "Some (py ''hi'')"
       and watermark_image_path = None and output_path = None and alpha_a = "0.1"
       and alpha_b = "0.9" and e = embedded_hi]
  from t e show ?thesis
    by auto
qed

end
